theory Spec2Isabelle
  imports Main
begin

section \<open>The udev device database (udevdb.c)\<close>

text \<open>
  A shallow embedding of \<^verbatim>\<open>src/udevdb.c\<close>: the four key spaces (device name,
  bus and id, class and class device, sysfs path) that the file keeps in one tdb
  database, the functions that store, fetch and delete their records, and the public
  operations built on them.
\<close>

subsection \<open>Constants of the headers\<close>

text \<open>
  \<^verbatim>\<open>NAME_SIZE\<close>, \<^verbatim>\<open>PATH_SIZE\<close>, \<^verbatim>\<open>BUS_SIZE\<close>, \<^verbatim>\<open>ID_SIZE\<close> and the
  delimiter string \<^verbatim>\<open>UDEVDB_DEL\<close> are macros of \<^verbatim>\<open>udev.h\<close> and \<^verbatim>\<open>udevdb.h\<close>,
  which are not among the sources. They are parameters of the model: every function
  takes the record \<open>lim\<close> that holds them, and every general theorem holds for all
  values of them.
\<close>

record limits =
  NAME_SIZE :: nat
  PATH_SIZE :: nat
  BUS_SIZE :: nat
  ID_SIZE :: nat
  UDEVDB_DEL :: string

text \<open>The value of \<^verbatim>\<open>ENODEV\<close> in \<^verbatim>\<open>errno.h\<close>.\<close>

definition ENODEV :: int where
  "ENODEV = 19"

subsection \<open>C strings and character arrays\<close>

text \<open>
  A C string is modelled by the list of its characters before the terminating NUL. A
  character array \<^verbatim>\<open>char a[cap]\<close> is modelled by the characters it holds before its
  first NUL, or by all \<open>cap\<close> of them when it holds no NUL. So a string \<open>s\<close> can be
  copied into the array with its terminator exactly when \<open>length s < cap\<close>, and an
  array holds a terminated string exactly when its content is shorter than \<open>cap\<close>.
\<close>

definition fits :: "nat \<Rightarrow> string \<Rightarrow> bool" where
  "fits cap s \<longleftrightarrow> length s < cap"

text \<open>
  \<^verbatim>\<open>strncpy(dst, src, n)\<close> into a zeroed array of \<open>n\<close> characters: the first \<open>n\<close>
  characters of \<open>src\<close>, with no terminator when \<open>src\<close> has \<open>n\<close> characters or more.
\<close>

definition strncpy :: "string \<Rightarrow> nat \<Rightarrow> string" where
  "strncpy src n = take n src"

text \<open>
  What a call does: it returns a value, or it runs into behaviour that C leaves
  undefined or that depends on the memory layout (a copy past the end of a buffer, a
  read of an unterminated array, a NULL pointer dereferenced, a stored record read
  through another struct type). The model does not follow an execution past that
  point.
\<close>

datatype 'a outcome = Undefined | Returns 'a

subsection \<open>Records\<close>

text \<open>
  \<^verbatim>\<open>struct namedb_record\<close> (lines 66 to 77). \<^verbatim>\<open>struct busdb_record\<close>,
  \<^verbatim>\<open>struct classdb_record\<close> and \<^verbatim>\<open>struct sysfsdb_record\<close> have the single field
  \<^verbatim>\<open>name\<close> and are modelled by the string that field holds.
\<close>

record namedb_record =
  nr_sysfs_dev_path :: string
  nr_class_dev_name :: string
  nr_class_name :: string
  nr_bus :: string
  nr_id :: string
  nr_driver :: string
  nr_type :: char
  nr_major :: int
  nr_minor :: int
  nr_mode :: int

text \<open>
  \<^verbatim>\<open>struct udevice\<close> is declared in \<^verbatim>\<open>udev.h\<close>; these are the fields udevdb.c
  uses. Its character arrays are taken to have the sizes that udevdb.c itself copies
  into them with: \<^verbatim>\<open>NAME_SIZE\<close> for name, class_dev_name, class_name and driver,
  \<^verbatim>\<open>PATH_SIZE\<close> for sysfs_dev_path, \<^verbatim>\<open>ID_SIZE\<close> for bus_id and \<^verbatim>\<open>BUS_SIZE\<close> for
  bus_name.
\<close>

record udevice =
  name :: string
  sysfs_dev_path :: string
  class_dev_name :: string
  class_name :: string
  bus_id :: string
  bus_name :: string
  driver :: string
  type :: char
  major :: int
  minor :: int
  mode :: int

text \<open>
  The parts of libsysfs's \<^verbatim>\<open>struct sysfs_class_device\<close> that udevdb_add_device reads:
  \<^verbatim>\<open>class_dev->name\<close>, the pointers \<^verbatim>\<open>class_dev->sysdevice\<close> and
  \<^verbatim>\<open>class_dev->driver\<close> (\<open>None\<close> is NULL), \<^verbatim>\<open>sysdevice->bus_id\<close>,
  \<^verbatim>\<open>sysdevice->directory->path\<close> and \<^verbatim>\<open>driver->name\<close>.
\<close>

record sysfs_directory =
  dir_path :: string

record sysfs_device =
  dev_bus_id :: string
  directory :: "sysfs_directory option"

record sysfs_driver =
  drv_name :: string

record sysfs_class_device =
  cdev_name :: string
  sysdevice :: "sysfs_device option"
  cdev_driver :: "sysfs_driver option"

subsection \<open>The database engine\<close>

text \<open>
  A value stored in the database. The code stores the bytes of a struct and reads
  them back with \<^verbatim>\<open>memcpy\<close> into a struct of the type the reader expects; the model
  keeps the struct that was written. \<open>Index_rec\<close> is a busdb_record or a
  classdb_record (both are \<^verbatim>\<open>char name[NAME_SIZE]\<close>), \<open>Sysfs_rec\<close> a sysfsdb_record
  (\<^verbatim>\<open>char name[PATH_SIZE]\<close>), \<open>Name_rec\<close> a namedb_record and \<open>Empty_data\<close> a value
  of size 0.
\<close>

datatype tdb_data =
  Index_rec string
  | Sysfs_rec string
  | Name_rec namedb_record
  | Empty_data

text \<open>
  The state the functions of udevdb.c work on: the static handle \<^verbatim>\<open>udevdb\<close>
  (\<open>None\<close> is NULL, the value before udevdb_init and after udevdb_exit) with the
  key-value mapping of the database it points to, and the outcomes of the calls to
  come that can fail for reasons outside the program (tdb_fetch, tdb_store,
  tdb_delete, malloc), in call order: \<open>True\<close> makes the next such call fail, and when
  the list is used up every call succeeds. A key is the C string the code builds; the
  code passes it with its terminator (\<^verbatim>\<open>dsize = strlen(keystr) + 1\<close>).
\<close>

record udev_state =
  udevdb :: "(string \<rightharpoonup> tdb_data) option"
  faults :: "bool list"

definition next_fault :: "udev_state \<Rightarrow> bool" where
  "next_fault s = (case faults s of [] \<Rightarrow> False | f # _ \<Rightarrow> f)"

definition advance :: "udev_state \<Rightarrow> udev_state" where
  "advance s = s\<lparr>faults := tl (faults s)\<rparr>"

text \<open>
  Modelled from the spec: the engine's tdb_fetch, tdb_store and tdb_delete
  (\<^verbatim>\<open>tdb/tdb.c\<close> is not among the sources). The spec's store adapter gives
  \<^verbatim>\<open>fetch(key) -> bytes | NotFound | EngineError\<close>,
  \<^verbatim>\<open>store(key, bytes) -> Ok | EngineError\<close>, which always replaces, and
  \<^verbatim>\<open>delete(key) -> Ok | NotFound | EngineError\<close>. In the C interface tdb_fetch
  returns a NULL \<^verbatim>\<open>dptr\<close> (here \<open>None\<close>) for a missing key and for an error alike,
  and tdb_store and tdb_delete return 0 for Ok and -1 otherwise. A call that fails
  leaves the mapping as it was. A NULL handle is dereferenced.
\<close>

definition tdb_fetch :: "udev_state \<Rightarrow> string \<Rightarrow> (tdb_data option \<times> udev_state) outcome" where
  "tdb_fetch s key =
     (case udevdb s of
        None \<Rightarrow> Undefined
      | Some db \<Rightarrow> Returns (if next_fault s then None else db key, advance s))"

definition tdb_store :: "udev_state \<Rightarrow> string \<Rightarrow> tdb_data \<Rightarrow> (int \<times> udev_state) outcome" where
  "tdb_store s key data =
     (case udevdb s of
        None \<Rightarrow> Undefined
      | Some db \<Rightarrow>
          if next_fault s then Returns (-1, advance s)
          else Returns (0, (advance s)\<lparr>udevdb := Some (db(key \<mapsto> data))\<rparr>))"

definition tdb_delete :: "udev_state \<Rightarrow> string \<Rightarrow> (int \<times> udev_state) outcome" where
  "tdb_delete s key =
     (case udevdb s of
        None \<Rightarrow> Undefined
      | Some db \<Rightarrow>
          if next_fault s \<or> db key = None then Returns (-1, advance s)
          else Returns (0, (advance s)\<lparr>udevdb := Some (db(key := None))\<rparr>))"

text \<open>
  \<^verbatim>\<open>malloc\<close>: whether the block was allocated. The content of a fresh block is
  indeterminate; where the code returns a block it has not written all of, the model
  takes the block's content as an argument.
\<close>

definition malloc :: "udev_state \<Rightarrow> bool \<times> udev_state" where
  "malloc s = (\<not> next_fault s, advance s)"

subsection \<open>Keys\<close>

text \<open>
  The key of the bus and of the class index, as busdb_fetch, busdb_store,
  busdb_delete and their classdb counterparts each build it in a zeroed buffer of
  \<open>cap\<close> characters (lines 122 to 125, 269 to 272, 393 to 396):
  \<^verbatim>\<open>strcpy(keystr, a); strcat(keystr, UDEVDB_DEL); strcat(keystr, b);\<close>
\<close>

definition keystr2 :: "limits \<Rightarrow> string \<Rightarrow> string \<Rightarrow> string" where
  "keystr2 lim a b = a @ UDEVDB_DEL lim @ b"

definition build_key2 :: "limits \<Rightarrow> nat \<Rightarrow> string \<Rightarrow> string \<Rightarrow> string outcome" where
  "build_key2 lim cap a b =
     (if fits cap (keystr2 lim a b) then Returns (keystr2 lim a b) else Undefined)"

subsection \<open>Fetching\<close>

text \<open>
  The four fetch functions share one tail (lines 130 to 143 of busdb_fetch, and the
  same lines of the other three): tdb_fetch; NULL when there is no data or its size is
  0; malloc, and NULL when it fails; \<^verbatim>\<open>memcpy\<close> of \<^verbatim>\<open>sizeof\<close> the expected struct
  out of the data. \<open>decode\<close> says what the copy reads out of each value, and is
  \<open>None\<close> where the copy reads past the end of the stored value or reads fields
  whose place depends on the layout of the struct.

  A value is read back as the struct it was written from. Read as another struct, it
  gives what C fixes: the first member of a struct is at its start, so the first
  characters of a stored namedb_record are those of its \<^verbatim>\<open>sysfs_dev_path\<close>, and
  index and sysfs records, which are one array each, read as each other up to the
  shorter of the two sizes. A namedb_record is larger than the other records, so
  reading one of them as a namedb_record reads past its end.
\<close>

definition fetch_rec ::
  "udev_state \<Rightarrow> string \<Rightarrow> (tdb_data \<Rightarrow> 'r option) \<Rightarrow> ('r option \<times> udev_state) outcome" where
  "fetch_rec s key decode =
     (case tdb_fetch s key of
        Undefined \<Rightarrow> Undefined
      | Returns (data, s1) \<Rightarrow>
          (case data of
             None \<Rightarrow> Returns (None, s1)
           | Some Empty_data \<Rightarrow> Returns (None, s1)
           | Some d \<Rightarrow>
               (case malloc s1 of
                  (False, s2) \<Rightarrow> Returns (None, s2)
                | (True, s2) \<Rightarrow>
                    (case decode d of
                       None \<Rightarrow> Undefined
                     | Some r \<Rightarrow> Returns (Some r, s2)))))"

definition as_index :: "limits \<Rightarrow> tdb_data \<Rightarrow> string option" where
  "as_index lim d =
     (case d of
        Index_rec n \<Rightarrow> Some n
      | Sysfs_rec n \<Rightarrow>
          if NAME_SIZE lim \<le> PATH_SIZE lim then Some (take (NAME_SIZE lim) n) else None
      | Name_rec r \<Rightarrow>
          if NAME_SIZE lim \<le> PATH_SIZE lim then Some (take (NAME_SIZE lim) (nr_sysfs_dev_path r))
          else None
      | Empty_data \<Rightarrow> None)"

definition as_sysfs :: "limits \<Rightarrow> tdb_data \<Rightarrow> string option" where
  "as_sysfs lim d =
     (case d of
        Sysfs_rec n \<Rightarrow> Some n
      | Index_rec n \<Rightarrow>
          if PATH_SIZE lim \<le> NAME_SIZE lim then Some (take (PATH_SIZE lim) n) else None
      | Name_rec r \<Rightarrow> Some (take (PATH_SIZE lim) (nr_sysfs_dev_path r))
      | Empty_data \<Rightarrow> None)"

definition as_name :: "tdb_data \<Rightarrow> namedb_record option" where
  "as_name d = (case d of Name_rec r \<Rightarrow> Some r | _ \<Rightarrow> None)"

text \<open>busdb_fetch (lines 111 to 144). A \<open>None\<close> argument is a NULL pointer.\<close>

definition busdb_fetch ::
  "limits \<Rightarrow> udev_state \<Rightarrow> string option \<Rightarrow> string option \<Rightarrow> (string option \<times> udev_state) outcome" where
  "busdb_fetch lim s bus id' =
     (case (bus, id') of
        (Some b, Some i) \<Rightarrow>
          if length b \<ge> BUS_SIZE lim \<or> length i \<ge> ID_SIZE lim then Returns (None, s)
          else
            (case build_key2 lim (BUS_SIZE lim + ID_SIZE lim + 2) b i of
               Undefined \<Rightarrow> Undefined
             | Returns key \<Rightarrow> fetch_rec s key (as_index lim))
      | _ \<Rightarrow> Returns (None, s))"

text \<open>classdb_fetch (lines 149 to 183).\<close>

definition classdb_fetch ::
  "limits \<Rightarrow> udev_state \<Rightarrow> string option \<Rightarrow> string option \<Rightarrow> (string option \<times> udev_state) outcome" where
  "classdb_fetch lim s cls cls_dev =
     (case (cls, cls_dev) of
        (Some c, Some d) \<Rightarrow>
          if length c \<ge> NAME_SIZE lim \<or> length d \<ge> NAME_SIZE lim then Returns (None, s)
          else
            (case build_key2 lim (NAME_SIZE lim + NAME_SIZE lim + 2) c d of
               Undefined \<Rightarrow> Undefined
             | Returns key \<Rightarrow> fetch_rec s key (as_index lim))
      | _ \<Rightarrow> Returns (None, s))"

text \<open>
  sysfsdb_fetch (lines 185 to 218). It does not test \<open>path\<close> for NULL before
  \<^verbatim>\<open>strlen(path)\<close>. The key is \<open>path\<close> itself, which fits the buffer of
  \<^verbatim>\<open>PATH_SIZE+2\<close> after the length test.
\<close>

definition sysfsdb_fetch ::
  "limits \<Rightarrow> udev_state \<Rightarrow> string option \<Rightarrow> (string option \<times> udev_state) outcome" where
  "sysfsdb_fetch lim s path =
     (case path of
        None \<Rightarrow> Undefined
      | Some p \<Rightarrow>
          if length p \<ge> PATH_SIZE lim then Returns (None, s)
          else fetch_rec s p (as_sysfs lim))"

text \<open>namedb_fetch (lines 223 to 254). The key is \<open>name\<close> itself.\<close>

definition namedb_fetch ::
  "limits \<Rightarrow> udev_state \<Rightarrow> string option \<Rightarrow> (namedb_record option \<times> udev_state) outcome" where
  "namedb_fetch lim s nm =
     (case nm of
        None \<Rightarrow> Returns (None, s)
      | Some n \<Rightarrow>
          if length n \<ge> NAME_SIZE lim then Returns (None, s)
          else fetch_rec s n as_name)"

subsection \<open>Storing\<close>

text \<open>
  busdb_store (lines 259 to 284). \<open>None\<close> for \<open>dev\<close> is a NULL pointer. The function
  reads \<^verbatim>\<open>dev->bus_name\<close>, \<^verbatim>\<open>dev->bus_id\<close> and \<^verbatim>\<open>dev->name\<close> as strings, builds
  the key in \<^verbatim>\<open>keystr[BUS_SIZE+ID_SIZE+2]\<close> and copies the name into
  \<^verbatim>\<open>rec.name[NAME_SIZE]\<close>, with \<^verbatim>\<open>strcpy\<close> and \<^verbatim>\<open>strcat\<close>, which test no length.
\<close>

definition busdb_store :: "limits \<Rightarrow> udev_state \<Rightarrow> udevice option \<Rightarrow> (int \<times> udev_state) outcome" where
  "busdb_store lim s dev =
     (case dev of
        None \<Rightarrow> Returns (-1, s)
      | Some d \<Rightarrow>
          if fits (BUS_SIZE lim) (bus_name d) \<and> fits (ID_SIZE lim) (bus_id d)
             \<and> fits (NAME_SIZE lim) (name d)
          then
            (case build_key2 lim (BUS_SIZE lim + ID_SIZE lim + 2) (bus_name d) (bus_id d) of
               Undefined \<Rightarrow> Undefined
             | Returns key \<Rightarrow> tdb_store s key (Index_rec (name d)))
          else Undefined)"

text \<open>classdb_store (lines 289 to 314).\<close>

definition classdb_store :: "limits \<Rightarrow> udev_state \<Rightarrow> udevice option \<Rightarrow> (int \<times> udev_state) outcome" where
  "classdb_store lim s dev =
     (case dev of
        None \<Rightarrow> Returns (-1, s)
      | Some d \<Rightarrow>
          if fits (NAME_SIZE lim) (class_name d) \<and> fits (NAME_SIZE lim) (class_dev_name d)
             \<and> fits (NAME_SIZE lim) (name d)
          then
            (case build_key2 lim (NAME_SIZE lim + NAME_SIZE lim + 2)
                    (class_name d) (class_dev_name d) of
               Undefined \<Rightarrow> Undefined
             | Returns key \<Rightarrow> tdb_store s key (Index_rec (name d)))
          else Undefined)"

text \<open>
  sysfs_store (lines 316 to 340): \<^verbatim>\<open>strcpy(keystr, path)\<close> into
  \<^verbatim>\<open>keystr[PATH_SIZE+2]\<close> and \<^verbatim>\<open>strcpy(rec.name, dev->name)\<close> into
  \<^verbatim>\<open>rec.name[PATH_SIZE]\<close>.
\<close>

definition sysfs_store ::
  "limits \<Rightarrow> udev_state \<Rightarrow> string option \<Rightarrow> udevice option \<Rightarrow> (int \<times> udev_state) outcome" where
  "sysfs_store lim s path dev =
     (case dev of
        None \<Rightarrow> Returns (- ENODEV, s)
      | Some d \<Rightarrow>
          (case path of
             None \<Rightarrow> Undefined
           | Some p \<Rightarrow>
               if fits (PATH_SIZE lim + 2) p \<and> fits (NAME_SIZE lim) (name d)
                  \<and> fits (PATH_SIZE lim) (name d)
               then tdb_store s p (Sysfs_rec (name d))
               else Undefined))"

text \<open>namedb_store (lines 345 to 377).\<close>

definition namedb_store :: "limits \<Rightarrow> udev_state \<Rightarrow> udevice option \<Rightarrow> (int \<times> udev_state) outcome" where
  "namedb_store lim s dev =
     (case dev of
        None \<Rightarrow> Returns (-1, s)
      | Some d \<Rightarrow>
          if fits (NAME_SIZE lim) (name d) \<and> fits (PATH_SIZE lim) (sysfs_dev_path d)
             \<and> fits (BUS_SIZE lim) (bus_name d) \<and> fits (ID_SIZE lim) (bus_id d)
             \<and> fits (NAME_SIZE lim) (class_dev_name d) \<and> fits (NAME_SIZE lim) (class_name d)
             \<and> fits (NAME_SIZE lim) (driver d)
          then
            tdb_store s (name d)
              (Name_rec \<lparr>nr_sysfs_dev_path = sysfs_dev_path d,
                         nr_class_dev_name = class_dev_name d,
                         nr_class_name = class_name d,
                         nr_bus = bus_name d,
                         nr_id = bus_id d,
                         nr_driver = driver d,
                         nr_type = type d,
                         nr_major = major d,
                         nr_minor = minor d,
                         nr_mode = mode d\<rparr>)
          else Undefined)"

subsection \<open>Deleting\<close>

text \<open>busdb_delete (lines 382 to 403).\<close>

definition busdb_delete ::
  "limits \<Rightarrow> udev_state \<Rightarrow> string option \<Rightarrow> string option \<Rightarrow> (int \<times> udev_state) outcome" where
  "busdb_delete lim s bus id' =
     (case (bus, id') of
        (Some b, Some i) \<Rightarrow>
          if length b \<ge> BUS_SIZE lim \<or> length i \<ge> ID_SIZE lim then Returns (-1, s)
          else
            (case build_key2 lim (BUS_SIZE lim + ID_SIZE lim + 2) b i of
               Undefined \<Rightarrow> Undefined
             | Returns key \<Rightarrow> tdb_delete s key)
      | _ \<Rightarrow> Returns (-1, s))"

text \<open>classdb_delete (lines 408 to 429).\<close>

definition classdb_delete ::
  "limits \<Rightarrow> udev_state \<Rightarrow> string option \<Rightarrow> string option \<Rightarrow> (int \<times> udev_state) outcome" where
  "classdb_delete lim s cls cls_dev =
     (case (cls, cls_dev) of
        (Some c, Some d) \<Rightarrow>
          if length c \<ge> NAME_SIZE lim \<or> length d \<ge> NAME_SIZE lim then Returns (-1, s)
          else
            (case build_key2 lim (NAME_SIZE lim + NAME_SIZE lim + 2) c d of
               Undefined \<Rightarrow> Undefined
             | Returns key \<Rightarrow> tdb_delete s key)
      | _ \<Rightarrow> Returns (-1, s))"

text \<open>namedb_delete (lines 434 to 453).\<close>

definition namedb_delete ::
  "limits \<Rightarrow> udev_state \<Rightarrow> string option \<Rightarrow> (int \<times> udev_state) outcome" where
  "namedb_delete lim s nm =
     (case nm of
        None \<Rightarrow> Returns (-1, s)
      | Some n \<Rightarrow>
          if length n \<ge> NAME_SIZE lim then Returns (-1, s)
          else tdb_delete s n)"

subsection \<open>The public operations\<close>

text \<open>
  udevdb_delete_udevice (lines 458 to 475). The values that busdb_delete,
  classdb_delete and namedb_delete return are not looked at.
\<close>

definition udevdb_delete_udevice ::
  "limits \<Rightarrow> udev_state \<Rightarrow> string option \<Rightarrow> (int \<times> udev_state) outcome" where
  "udevdb_delete_udevice lim s nm =
     (case nm of
        None \<Rightarrow> Returns (-1, s)
      | Some n \<Rightarrow>
          (case namedb_fetch lim s (Some n) of
             Undefined \<Rightarrow> Undefined
           | Returns (None, s1) \<Rightarrow> Returns (-1, s1)
           | Returns (Some nrec, s1) \<Rightarrow>
               (case busdb_delete lim s1 (Some (nr_bus nrec)) (Some (nr_id nrec)) of
                  Undefined \<Rightarrow> Undefined
                | Returns (_, s2) \<Rightarrow>
                    (case classdb_delete lim s2 (Some (nr_class_name nrec))
                            (Some (nr_class_dev_name nrec)) of
                       Undefined \<Rightarrow> Undefined
                     | Returns (_, s3) \<Rightarrow>
                         (case namedb_delete lim s3 (Some n) of
                            Undefined \<Rightarrow> Undefined
                          | Returns (_, s4) \<Rightarrow> Returns (0, s4))))))"

text \<open>
  The device that udevdb_add_device builds in \<^verbatim>\<open>dbdev\<close> (lines 487 to 504), after
  its test of \<open>class_dev\<close>: \<^verbatim>\<open>memset\<close> to 0, then the \<^verbatim>\<open>strncpy\<close> and \<^verbatim>\<open>strcpy\<close>
  calls in their order. The class name is never written (lines 494 and 495 are
  commented out) and the bus name is always the literal \<^verbatim>\<open>"unknown"\<close>.
\<close>

definition zero_udevice :: udevice where
  "zero_udevice =
     \<lparr>name = [], sysfs_dev_path = [], class_dev_name = [], class_name = [], bus_id = [],
      bus_name = [], driver = [], type = CHR 0x00, major = 0, minor = 0, mode = 0\<rparr>"

definition fill_dbdev ::
  "limits \<Rightarrow> sysfs_class_device \<Rightarrow> string option \<Rightarrow> char \<Rightarrow> int \<Rightarrow> int \<Rightarrow> int \<Rightarrow> udevice outcome" where
  "fill_dbdev lim cd nm type' major' minor' mode' =
     (case nm of
        None \<Rightarrow> Undefined
      | Some n \<Rightarrow>
          (let d0 = zero_udevice\<lparr>name := strncpy n (NAME_SIZE lim)\<rparr> in
           (case (case sysdevice cd of
                    None \<Rightarrow> Returns d0
                  | Some sd \<Rightarrow>
                      (case directory sd of
                         None \<Rightarrow> Undefined
                       | Some dir \<Rightarrow>
                           Returns (d0\<lparr>sysfs_dev_path := strncpy (dir_path dir) (PATH_SIZE lim),
                                       bus_id := strncpy (dev_bus_id sd) (ID_SIZE lim)\<rparr>))) of
              Undefined \<Rightarrow> Undefined
            | Returns d1 \<Rightarrow>
                if \<not> fits (BUS_SIZE lim) ''unknown'' then Undefined
                else
                  (let d2 = d1\<lparr>class_dev_name := strncpy (cdev_name cd) (NAME_SIZE lim),
                                bus_name := ''unknown''\<rparr> in
                   (case (case cdev_driver cd of
                            Some drv \<Rightarrow> Returns (d2\<lparr>driver := strncpy (drv_name drv) (NAME_SIZE lim)\<rparr>)
                          | None \<Rightarrow>
                              if fits (NAME_SIZE lim) ''unknown''
                              then Returns (d2\<lparr>driver := ''unknown''\<rparr>) else Undefined) of
                      Undefined \<Rightarrow> Undefined
                    | Returns d3 \<Rightarrow>
                        Returns (d3\<lparr>type := type', major := major', minor := minor',
                                    mode := mode'\<rparr>))))))"

text \<open>udevdb_add_device (lines 480 to 516).\<close>

definition udevdb_add_device ::
  "limits \<Rightarrow> udev_state \<Rightarrow> string option \<Rightarrow> sysfs_class_device option \<Rightarrow> string option \<Rightarrow>
   char \<Rightarrow> int \<Rightarrow> int \<Rightarrow> int \<Rightarrow> (int \<times> udev_state) outcome" where
  "udevdb_add_device lim s device class_dev nm type' major' minor' mode' =
     (case class_dev of
        None \<Rightarrow> Returns (- ENODEV, s)
      | Some cd \<Rightarrow>
          (case fill_dbdev lim cd nm type' major' minor' mode' of
             Undefined \<Rightarrow> Undefined
           | Returns dbdev \<Rightarrow>
               (case busdb_store lim s (Some dbdev) of
                  Undefined \<Rightarrow> Undefined
                | Returns (r1, s1) \<Rightarrow>
                    if r1 \<noteq> 0 then Returns (-1, s1)
                    else
                      (case classdb_store lim s1 (Some dbdev) of
                         Undefined \<Rightarrow> Undefined
                       | Returns (r2, s2) \<Rightarrow>
                           if r2 \<noteq> 0 then Returns (-1, s2)
                           else
                             (case sysfs_store lim s2 device (Some dbdev) of
                                Undefined \<Rightarrow> Undefined
                              | Returns (r3, s3) \<Rightarrow>
                                  if r3 \<noteq> 0 then Returns (-1, s3)
                                  else
                                    (case namedb_store lim s3 (Some dbdev) of
                                       Undefined \<Rightarrow> Undefined
                                     | Returns (r4, s4) \<Rightarrow>
                                         if r4 \<noteq> 0 then Returns (-1, s4)
                                         else Returns (0, s4)))))))"

text \<open>
  udevdb_get_udevice (lines 521 to 553). The device it returns is a block from
  \<^verbatim>\<open>malloc\<close>, of which it writes every field but \<^verbatim>\<open>driver\<close>; \<open>blk\<close> is what the
  block held when it was allocated.
\<close>

definition udevdb_get_udevice ::
  "limits \<Rightarrow> udev_state \<Rightarrow> udevice \<Rightarrow> string option \<Rightarrow> (udevice option \<times> udev_state) outcome" where
  "udevdb_get_udevice lim s blk nm =
     (case nm of
        None \<Rightarrow> Returns (None, s)
      | Some n \<Rightarrow>
          (case namedb_fetch lim s (Some n) of
             Undefined \<Rightarrow> Undefined
           | Returns (None, s1) \<Rightarrow> Returns (None, s1)
           | Returns (Some nrec, s1) \<Rightarrow>
               (case malloc s1 of
                  (False, s2) \<Rightarrow> Returns (None, s2)
                | (True, s2) \<Rightarrow>
                    if fits (PATH_SIZE lim) (nr_sysfs_dev_path nrec)
                       \<and> fits (NAME_SIZE lim) (nr_class_dev_name nrec)
                       \<and> fits (NAME_SIZE lim) (nr_class_name nrec)
                       \<and> fits (BUS_SIZE lim) (nr_bus nrec)
                       \<and> fits (ID_SIZE lim) (nr_id nrec)
                    then
                      Returns
                        (Some (blk\<lparr>name := n,
                                    sysfs_dev_path := nr_sysfs_dev_path nrec,
                                    class_dev_name := nr_class_dev_name nrec,
                                    class_name := nr_class_name nrec,
                                    bus_name := nr_bus nrec,
                                    bus_id := nr_id nrec,
                                    type := nr_type nrec,
                                    major := nr_major nrec,
                                    minor := nr_minor nrec,
                                    mode := nr_mode nrec\<rparr>), s2)
                    else Undefined)))"

text \<open>
  udevdb_get_udevice_by_bus (lines 558 to 574). \<^verbatim>\<open>brec->name\<close> is passed on as a
  string, so an array without terminator is read past its end.
\<close>

definition udevdb_get_udevice_by_bus ::
  "limits \<Rightarrow> udev_state \<Rightarrow> udevice \<Rightarrow> string option \<Rightarrow> string option \<Rightarrow>
   (udevice option \<times> udev_state) outcome" where
  "udevdb_get_udevice_by_bus lim s blk bus id' =
     (case (bus, id') of
        (Some b, Some i) \<Rightarrow>
          (case busdb_fetch lim s (Some b) (Some i) of
             Undefined \<Rightarrow> Undefined
           | Returns (None, s1) \<Rightarrow> Returns (None, s1)
           | Returns (Some brec, s1) \<Rightarrow>
               if fits (NAME_SIZE lim) brec then udevdb_get_udevice lim s1 blk (Some brec)
               else Undefined)
      | _ \<Rightarrow> Returns (None, s))"

text \<open>udevdb_get_udevice_by_class (lines 579 to 596).\<close>

definition udevdb_get_udevice_by_class ::
  "limits \<Rightarrow> udev_state \<Rightarrow> udevice \<Rightarrow> string option \<Rightarrow> string option \<Rightarrow>
   (udevice option \<times> udev_state) outcome" where
  "udevdb_get_udevice_by_class lim s blk cls cls_dev =
     (case (cls, cls_dev) of
        (Some c, Some d) \<Rightarrow>
          (case classdb_fetch lim s (Some c) (Some d) of
             Undefined \<Rightarrow> Undefined
           | Returns (None, s1) \<Rightarrow> Returns (None, s1)
           | Returns (Some crec, s1) \<Rightarrow>
               if fits (NAME_SIZE lim) crec then udevdb_get_udevice lim s1 blk (Some crec)
               else Undefined)
      | _ \<Rightarrow> Returns (None, s))"

text \<open>
  udevdb_get_udevice_by_sysfs (lines 599 to 617): it returns \<^verbatim>\<open>crec->name\<close>, the
  name the index entry holds, and does not fetch the device.
\<close>

definition udevdb_get_udevice_by_sysfs ::
  "limits \<Rightarrow> udev_state \<Rightarrow> string option \<Rightarrow> (string option \<times> udev_state) outcome" where
  "udevdb_get_udevice_by_sysfs lim s path =
     (case path of
        None \<Rightarrow> Returns (None, s)
      | Some p \<Rightarrow>
          (case sysfsdb_fetch lim s (Some p) of
             Undefined \<Rightarrow> Undefined
           | Returns (None, s1) \<Rightarrow> Returns (None, s1)
           | Returns (Some crec, s1) \<Rightarrow> Returns (Some crec, s1)))"

subsection \<open>States, descriptors and the writes of an add\<close>

text \<open>
  The state with an open database that holds the mapping \<open>db\<close>, and the outcomes
  \<open>fs\<close> of the fallible calls to come.
\<close>

definition running :: "(string \<rightharpoonup> tdb_data) \<Rightarrow> bool list \<Rightarrow> udev_state" where
  "running db fs = \<lparr>udevdb = Some db, faults = fs\<rparr>"

text \<open>
  The constants for which udevdb_add_device can run at all: \<^verbatim>\<open>"unknown"\<close> fits the
  bus name and the driver arrays, a device name fits the \<^verbatim>\<open>name[PATH_SIZE]\<close> of a
  sysfsdb_record, the bus id array is not empty, and the delimiter is short enough for two parts of admissible
  length and the delimiter to fit the key buffers, which have two characters more
  than the parts.
\<close>

definition limits_ok :: "limits \<Rightarrow> bool" where
  "limits_ok lim \<longleftrightarrow>
     fits (BUS_SIZE lim) ''unknown'' \<and> fits (NAME_SIZE lim) ''unknown''
     \<and> NAME_SIZE lim \<le> PATH_SIZE lim \<and> 0 < ID_SIZE lim \<and> length (UDEVDB_DEL lim) \<le> 3"

text \<open>
  What udevdb_add_device is given about a device: the key \<open>device\<close> of the sysfs
  index, the class device and the device name. It is valid when every string is shorter
  than the size of the array it goes to, and the sysfs device, when there is one, has
  its directory.
\<close>

definition valid_descriptor :: "limits \<Rightarrow> string \<Rightarrow> sysfs_class_device \<Rightarrow> string \<Rightarrow> bool" where
  "valid_descriptor lim device cd n \<longleftrightarrow>
     fits (PATH_SIZE lim) device \<and> fits (NAME_SIZE lim) n \<and> fits (NAME_SIZE lim) (cdev_name cd)
     \<and> (case sysdevice cd of
           None \<Rightarrow> True
         | Some sd \<Rightarrow>
             fits (ID_SIZE lim) (dev_bus_id sd)
             \<and> (case directory sd of None \<Rightarrow> False | Some dir \<Rightarrow> fits (PATH_SIZE lim) (dir_path dir)))
     \<and> (case cdev_driver cd of None \<Rightarrow> True | Some drv \<Rightarrow> fits (NAME_SIZE lim) (drv_name drv))"

text \<open>
  The sysfs path, the bus id and the driver name that lines 489 to 500 leave in
  \<^verbatim>\<open>dbdev\<close> when nothing is cut: empty strings without a sysfs device,
  \<^verbatim>\<open>"unknown"\<close> without a driver.
\<close>

definition sysdevice_path :: "sysfs_class_device \<Rightarrow> string" where
  "sysdevice_path cd =
     (case sysdevice cd of
        None \<Rightarrow> []
      | Some sd \<Rightarrow> (case directory sd of None \<Rightarrow> [] | Some dir \<Rightarrow> dir_path dir))"

definition sysdevice_bus_id :: "sysfs_class_device \<Rightarrow> string" where
  "sysdevice_bus_id cd = (case sysdevice cd of None \<Rightarrow> [] | Some sd \<Rightarrow> dev_bus_id sd)"

definition driver_name :: "sysfs_class_device \<Rightarrow> string" where
  "driver_name cd = (case cdev_driver cd of None \<Rightarrow> ''unknown'' | Some drv \<Rightarrow> drv_name drv)"

text \<open>The device that lines 487 to 504 build from a valid descriptor.\<close>

definition dbdev_of :: "sysfs_class_device \<Rightarrow> string \<Rightarrow> char \<Rightarrow> int \<Rightarrow> int \<Rightarrow> int \<Rightarrow> udevice" where
  "dbdev_of cd n type' major' minor' mode' =
     \<lparr>name = n, sysfs_dev_path = sysdevice_path cd, class_dev_name = cdev_name cd,
      class_name = [], bus_id = sysdevice_bus_id cd, bus_name = ''unknown'',
      driver = driver_name cd, type = type', major = major', minor = minor', mode = mode'\<rparr>"

text \<open>
  The four writes of a udevdb_add_device call, in the order of lines 506 to 513: the
  bus index entry, the class index entry, the sysfs index entry and the record under
  the device name.
\<close>

definition add_writes ::
  "limits \<Rightarrow> string \<Rightarrow> sysfs_class_device \<Rightarrow> string \<Rightarrow> char \<Rightarrow> int \<Rightarrow> int \<Rightarrow> int \<Rightarrow>
   (string \<times> tdb_data) list" where
  "add_writes lim device cd n type' major' minor' mode' =
     [(keystr2 lim ''unknown'' (sysdevice_bus_id cd), Index_rec n),
      (keystr2 lim [] (cdev_name cd), Index_rec n),
      (device, Sysfs_rec n),
      (n, Name_rec \<lparr>nr_sysfs_dev_path = sysdevice_path cd,
                    nr_class_dev_name = cdev_name cd,
                    nr_class_name = [],
                    nr_bus = ''unknown'',
                    nr_id = sysdevice_bus_id cd,
                    nr_driver = driver_name cd,
                    nr_type = type',
                    nr_major = major',
                    nr_minor = minor',
                    nr_mode = mode'\<rparr>)]"

primrec store_all :: "(string \<rightharpoonup> tdb_data) \<Rightarrow> (string \<times> tdb_data) list \<Rightarrow> (string \<rightharpoonup> tdb_data)" where
  "store_all db [] = db"
| "store_all db (w # ws) = store_all (db(fst w \<mapsto> snd w)) ws"

subsection \<open>An instance of the constants, and the scenario of the specification\<close>

text \<open>
  One choice of the header constants, and the device of the specification's concrete
  scenario, for evaluating the functions on concrete inputs.
\<close>

definition sample_limits :: limits where
  "sample_limits =
     \<lparr>NAME_SIZE = 100, PATH_SIZE = 256, BUS_SIZE = 30, ID_SIZE = 50, UDEVDB_DEL = ''#''\<rparr>"

definition sda_class_dev :: sysfs_class_device where
  "sda_class_dev =
     \<lparr>cdev_name = ''sda'',
      sysdevice = Some \<lparr>dev_bus_id = ''0:0:0:0'',
                        directory = Some \<lparr>dir_path = ''/devices/scsi0/0:0:0:0''\<rparr>\<rparr>,
      cdev_driver = Some \<lparr>drv_name = ''sd''\<rparr>\<rparr>"

text \<open>
  The mapping and the state after the device of the scenario was added to an empty
  database.
\<close>

definition sda_rec :: namedb_record where
  "sda_rec =
     \<lparr>nr_sysfs_dev_path = ''/devices/scsi0/0:0:0:0'',
      nr_class_dev_name = ''sda'',
      nr_class_name = [],
      nr_bus = ''unknown'',
      nr_id = ''0:0:0:0'',
      nr_driver = ''sd'',
      nr_type = CHR ''b'',
      nr_major = 8,
      nr_minor = 0,
      nr_mode = 432\<rparr>"

definition sda_db :: "string \<rightharpoonup> tdb_data" where
  "sda_db =
     [''unknown#0:0:0:0'' \<mapsto> Index_rec ''sda'',
      ''#sda'' \<mapsto> Index_rec ''sda'',
      ''/block/sda'' \<mapsto> Sysfs_rec ''sda'',
      ''sda'' \<mapsto> Name_rec sda_rec]"

definition sda_added :: udev_state where
  "sda_added = running sda_db []"

text \<open>
  The state after the same class device was added to an empty database under the
  name \<^verbatim>\<open>"#sda"\<close>, which is also the key of its class index entry: the four
  writes in their order, the fourth replacing the second.
\<close>

definition clash_added :: udev_state where
  "clash_added =
     running (Map.empty(''unknown#0:0:0:0'' \<mapsto> Index_rec ''#sda'',
                        ''#sda'' \<mapsto> Index_rec ''#sda'',
                        ''/block/sda'' \<mapsto> Sysfs_rec ''#sda'',
                        ''#sda'' \<mapsto> Name_rec \<lparr>nr_sysfs_dev_path = ''/devices/scsi0/0:0:0:0'',
                                                 nr_class_dev_name = ''sda'',
                                                 nr_class_name = [],
                                                 nr_bus = ''unknown'',
                                                 nr_id = ''0:0:0:0'',
                                                 nr_driver = ''sd'',
                                                 nr_type = CHR ''b'',
                                                 nr_major = 8,
                                                 nr_minor = 0,
                                                 nr_mode = 432\<rparr>)) []"

text \<open>
  A class device with neither sysfs device nor driver, the state after it was added
  to an empty database, and a block of memory that holds a driver name from an
  earlier use.
\<close>

definition tty_class_dev :: sysfs_class_device where
  "tty_class_dev = \<lparr>cdev_name = ''ttyS0'', sysdevice = None, cdev_driver = None\<rparr>"

definition tty_added :: udev_state where
  "tty_added =
     running [''unknown#'' \<mapsto> Index_rec ''ttyS0'',
              ''#ttyS0'' \<mapsto> Index_rec ''ttyS0'',
              ''/class/tty/ttyS0'' \<mapsto> Sysfs_rec ''ttyS0'',
              ''ttyS0'' \<mapsto> Name_rec \<lparr>nr_sysfs_dev_path = [],
                                        nr_class_dev_name = ''ttyS0'',
                                        nr_class_name = [],
                                        nr_bus = ''unknown'',
                                        nr_id = [],
                                        nr_driver = ''unknown'',
                                        nr_type = CHR ''c'',
                                        nr_major = 4,
                                        nr_minor = 64,
                                        nr_mode = 432\<rparr>] []"

definition used_block :: udevice where
  "used_block = zero_udevice\<lparr>driver := ''usb-storage''\<rparr>"



definition bus_dangling :: udev_state where
  "bus_dangling = running (sda_db(''#sda'' := None, ''sda'' := None)) []"

text \<open>The state after the scenario's device was added and deleted again.\<close>

definition sda_deleted :: udev_state where
  "sda_deleted = running [''/block/sda'' \<mapsto> Sysfs_rec ''sda''] []"

text \<open>
  A sysfs key of exactly \<^verbatim>\<open>PATH_SIZE\<close> characters and a device name of exactly
  \<^verbatim>\<open>NAME_SIZE\<close> characters, for the sample constants, and the state after the
  scenario's device was added under that sysfs key.
\<close>

definition long_path :: string where
  "long_path = replicate 256 (CHR ''a'')"

definition long_name :: string where
  "long_name = replicate 100 (CHR ''a'')"

definition long_added :: udev_state where
  "long_added =
     running (Map.empty(''unknown#0:0:0:0'' \<mapsto> Index_rec ''sda'',
                        ''#sda'' \<mapsto> Index_rec ''sda'',
                        long_path \<mapsto> Sysfs_rec ''sda'',
                        ''sda'' \<mapsto> Name_rec sda_rec)) []"



section \<open>Properties\<close>

subsection \<open>States and engine calls\<close>

lemma running_sel [simp]: "udevdb (running db fs) = Some db" "faults (running db fs) = fs"
  by (simp_all add: running_def)

lemma next_fault_running [simp]:
  "next_fault (running db []) = False" "next_fault (running db (f # fs)) = f"
  by (simp_all add: next_fault_def)

lemma advance_running [simp]:
  "advance (running db []) = running db []" "advance (running db (f # fs)) = running db fs"
  by (simp_all add: advance_def running_def)

lemma running_update [simp]: "(running db fs)\<lparr>udevdb := Some db'\<rparr> = running db' fs"
  by (simp add: running_def)

lemma tdb_store_running [simp]:
  "tdb_store (running db []) k v = Returns (0, running (db(k \<mapsto> v)) [])"
  "tdb_store (running db (False # fs)) k v = Returns (0, running (db(k \<mapsto> v)) fs)"
  "tdb_store (running db (True # fs)) k v = Returns (-1, running db fs)"
  by (simp_all add: tdb_store_def)

lemma tdb_fetch_running [simp]:
  "tdb_fetch (running db []) k = Returns (db k, running db [])"
  "tdb_fetch (running db (False # fs)) k = Returns (db k, running db fs)"
  "tdb_fetch (running db (True # fs)) k = Returns (None, running db fs)"
  by (simp_all add: tdb_fetch_def)

lemma tdb_delete_running [simp]:
  "tdb_delete (running db []) k =
     (if db k = None then Returns (-1, running db []) else Returns (0, running (db(k := None)) []))"
  "tdb_delete (running db (False # fs)) k =
     (if db k = None then Returns (-1, running db fs) else Returns (0, running (db(k := None)) fs))"
  "tdb_delete (running db (True # fs)) k = Returns (-1, running db fs)"
  by (simp_all add: tdb_delete_def)

lemma malloc_running [simp]:
  "malloc (running db []) = (True, running db [])"
  "malloc (running db (f # fs)) = (\<not> f, running db fs)"
  by (simp_all add: malloc_def)

lemma fetch_rec_running:
  "fetch_rec (running db []) k dec =
     (case db k of
        None \<Rightarrow> Returns (None, running db [])
      | Some d \<Rightarrow>
          if d = Empty_data then Returns (None, running db [])
          else (case dec d of None \<Rightarrow> Undefined | Some r \<Rightarrow> Returns (Some r, running db [])))"
  by (simp add: fetch_rec_def split: option.split tdb_data.split)

subsection \<open>Keys of admissible parts fit their buffers\<close>

lemma key_fits_bus:
  "limits_ok lim \<Longrightarrow> length b < BUS_SIZE lim \<Longrightarrow> length i < ID_SIZE lim \<Longrightarrow>
   build_key2 lim (BUS_SIZE lim + ID_SIZE lim + 2) b i = Returns (keystr2 lim b i)"
  by (simp add: build_key2_def keystr2_def fits_def limits_ok_def)

lemma key_fits_class:
  "limits_ok lim \<Longrightarrow> length c < NAME_SIZE lim \<Longrightarrow> length d < NAME_SIZE lim \<Longrightarrow>
   build_key2 lim (NAME_SIZE lim + NAME_SIZE lim + 2) c d = Returns (keystr2 lim c d)"
  by (simp add: build_key2_def keystr2_def fits_def limits_ok_def)

subsection \<open>Adding a valid descriptor\<close>

lemma valid_fits:
  assumes "limits_ok lim" "valid_descriptor lim p cd n"
  shows "fits (ID_SIZE lim) (sysdevice_bus_id cd)" "fits (PATH_SIZE lim) (sysdevice_path cd)"
    "fits (NAME_SIZE lim) (driver_name cd)" "fits (NAME_SIZE lim) n" "fits (PATH_SIZE lim) n"
    "fits (NAME_SIZE lim) (cdev_name cd)" "fits (PATH_SIZE lim) p" "fits (PATH_SIZE lim + 2) p"
    "fits (BUS_SIZE lim) ''unknown''" "fits (NAME_SIZE lim) []"
  using assms
  by (auto simp add: limits_ok_def valid_descriptor_def fits_def
      sysdevice_path_def sysdevice_bus_id_def driver_name_def split: option.splits)

lemma fill_dbdev_valid:
  assumes "limits_ok lim" "valid_descriptor lim p cd n"
  shows "fill_dbdev lim cd (Some n) t ma mi mo = Returns (dbdev_of cd n t ma mi mo)"
  using assms
  by (auto simp add: fill_dbdev_def limits_ok_def valid_descriptor_def fits_def strncpy_def
      zero_udevice_def sysdevice_path_def sysdevice_bus_id_def driver_name_def dbdev_of_def
      split: option.splits)

lemma busdb_store_valid:
  assumes "limits_ok lim" "valid_descriptor lim p cd n"
  shows "busdb_store lim s (Some (dbdev_of cd n t ma mi mo)) =
     tdb_store s (keystr2 lim ''unknown'' (sysdevice_bus_id cd)) (Index_rec n)"
  using valid_fits[OF assms] key_fits_bus[OF assms(1), of "''unknown''" "sysdevice_bus_id cd"]
  by (simp add: busdb_store_def dbdev_of_def fits_def)

lemma classdb_store_valid:
  assumes "limits_ok lim" "valid_descriptor lim p cd n"
  shows "classdb_store lim s (Some (dbdev_of cd n t ma mi mo)) =
     tdb_store s (keystr2 lim [] (cdev_name cd)) (Index_rec n)"
  using valid_fits[OF assms] key_fits_class[OF assms(1), of "[]" "cdev_name cd"]
  by (simp add: classdb_store_def dbdev_of_def fits_def)

lemma sysfs_store_valid:
  assumes "limits_ok lim" "valid_descriptor lim p cd n"
  shows "sysfs_store lim s (Some p) (Some (dbdev_of cd n t ma mi mo)) = tdb_store s p (Sysfs_rec n)"
  using valid_fits[OF assms]
  by (simp add: sysfs_store_def dbdev_of_def)

lemma namedb_store_valid:
  assumes "limits_ok lim" "valid_descriptor lim p cd n"
  shows "namedb_store lim s (Some (dbdev_of cd n t ma mi mo)) =
     tdb_store s n (snd (add_writes lim p cd n t ma mi mo ! 3))"
  using valid_fits[OF assms]
  by (simp add: namedb_store_def dbdev_of_def add_writes_def)

lemma add_device_valid:
  assumes "limits_ok lim" "valid_descriptor lim p cd n"
  shows "udevdb_add_device lim s (Some p) (Some cd) (Some n) t ma mi mo =
     (case tdb_store s (keystr2 lim ''unknown'' (sysdevice_bus_id cd)) (Index_rec n) of
        Undefined \<Rightarrow> Undefined
      | Returns (r1, s1) \<Rightarrow>
          if r1 \<noteq> 0 then Returns (-1, s1)
          else
            (case tdb_store s1 (keystr2 lim [] (cdev_name cd)) (Index_rec n) of
               Undefined \<Rightarrow> Undefined
             | Returns (r2, s2) \<Rightarrow>
                 if r2 \<noteq> 0 then Returns (-1, s2)
                 else
                   (case tdb_store s2 p (Sysfs_rec n) of
                      Undefined \<Rightarrow> Undefined
                    | Returns (r3, s3) \<Rightarrow>
                        if r3 \<noteq> 0 then Returns (-1, s3)
                        else
                          (case tdb_store s3 n (snd (add_writes lim p cd n t ma mi mo ! 3)) of
                             Undefined \<Rightarrow> Undefined
                           | Returns (r4, s4) \<Rightarrow>
                               if r4 \<noteq> 0 then Returns (-1, s4) else Returns (0, s4)))))"
  unfolding udevdb_add_device_def
  using fill_dbdev_valid[OF assms, of t ma mi mo]
  by (simp add: busdb_store_valid[OF assms] classdb_store_valid[OF assms]
      sysfs_store_valid[OF assms] namedb_store_valid[OF assms]
      cong: outcome.case_cong if_cong prod.case_cong)

lemma add_device_ok:
  assumes "limits_ok lim" "valid_descriptor lim p cd n"
  shows "udevdb_add_device lim (running db []) (Some p) (Some cd) (Some n) t ma mi mo =
     Returns (0, running (store_all db (add_writes lim p cd n t ma mi mo)) [])"
  by (simp add: add_device_valid[OF assms]) (simp add: add_writes_def)

subsection \<open>Fetching a device by name\<close>

lemma get_udevice_found:
  assumes "db n = Some (Name_rec r)" "fits (NAME_SIZE lim) n"
    "fits (PATH_SIZE lim) (nr_sysfs_dev_path r)" "fits (NAME_SIZE lim) (nr_class_dev_name r)"
    "fits (NAME_SIZE lim) (nr_class_name r)" "fits (BUS_SIZE lim) (nr_bus r)"
    "fits (ID_SIZE lim) (nr_id r)"
  shows "udevdb_get_udevice lim (running db []) blk (Some n) =
     Returns (Some (blk\<lparr>name := n,
                         sysfs_dev_path := nr_sysfs_dev_path r,
                         class_dev_name := nr_class_dev_name r,
                         class_name := nr_class_name r,
                         bus_name := nr_bus r,
                         bus_id := nr_id r,
                         type := nr_type r,
                         major := nr_major r,
                         minor := nr_minor r,
                         mode := nr_mode r\<rparr>), running db [])"
  using assms
  by (simp add: udevdb_get_udevice_def namedb_fetch_def fetch_rec_running as_name_def fits_def)


lemma get_after_add:
  assumes "limits_ok lim" and "valid_descriptor lim p cd n"
  shows "udevdb_get_udevice lim (running (store_all db (add_writes lim p cd n t ma mi mo)) [])
           blk (Some n) =
         Returns (Some (blk\<lparr>name := n,
                             sysfs_dev_path := sysdevice_path cd,
                             class_dev_name := cdev_name cd,
                             class_name := [],
                             bus_name := ''unknown'',
                             bus_id := sysdevice_bus_id cd,
                             type := t,
                             major := ma,
                             minor := mi,
                             mode := mo\<rparr>),
                  running (store_all db (add_writes lim p cd n t ma mi mo)) [])"
proof -
  let ?db' = "store_all db (add_writes lim p cd n t ma mi mo)"
  let ?r = "\<lparr>nr_sysfs_dev_path = sysdevice_path cd, nr_class_dev_name = cdev_name cd,
      nr_class_name = [], nr_bus = ''unknown'', nr_id = sysdevice_bus_id cd,
      nr_driver = driver_name cd, nr_type = t, nr_major = ma, nr_minor = mi,
      nr_mode = mo\<rparr>"
  have stored: "?db' n = Some (Name_rec ?r)"
    by (simp add: add_writes_def)
  show ?thesis
    using get_udevice_found[of ?db' n ?r lim blk] stored valid_fits[OF assms]
    by simp
qed

subsection \<open>Fetching index entries\<close>

lemma busdb_fetch_found:
  assumes "limits_ok lim" "length b < BUS_SIZE lim" "length i < ID_SIZE lim"
    "db (keystr2 lim b i) = Some d" "d \<noteq> Empty_data" "as_index lim d = Some n"
  shows "busdb_fetch lim (running db []) (Some b) (Some i) = Returns (Some n, running db [])"
  using assms key_fits_bus[OF assms(1-3)]
  by (simp add: busdb_fetch_def fetch_rec_running)


lemma classdb_fetch_found:
  assumes "limits_ok lim" "length c < NAME_SIZE lim" "length e < NAME_SIZE lim"
    "db (keystr2 lim c e) = Some d" "d \<noteq> Empty_data" "as_index lim d = Some n"
  shows "classdb_fetch lim (running db []) (Some c) (Some e) = Returns (Some n, running db [])"
  using assms key_fits_class[OF assms(1-3)]
  by (simp add: classdb_fetch_def fetch_rec_running)


lemma as_index_own_name:
  assumes "limits_ok lim" "fits (NAME_SIZE lim) n" "d = Index_rec n \<or> d = Sysfs_rec n"
  shows "d \<noteq> Empty_data \<and> as_index lim d = Some n"
  using assms by (auto simp add: as_index_def limits_ok_def fits_def)



lemma written_fields_same:
  "(b2::udevice)\<lparr>name := n, sysfs_dev_path := p, class_dev_name := cdn, class_name := cn,
       bus_name := bn, bus_id := bi, type := t, major := ma, minor := mi, mode := mo\<rparr> =
   ((b1::udevice)\<lparr>name := n, sysfs_dev_path := p, class_dev_name := cdn, class_name := cn,
        bus_name := bn, bus_id := bi, type := t, major := ma, minor := mi, mode := mo\<rparr>)
     \<lparr>driver := driver b2\<rparr>"
  by (cases b1, cases b2) simp

subsection \<open>Calls that return leave the database open\<close>

lemma tdb_fetch_open:
  "tdb_fetch s k = Returns (d, s') \<Longrightarrow> \<exists>db. udevdb s = Some db \<and> udevdb s' = Some db"
  by (auto simp add: tdb_fetch_def advance_def split: option.splits)

lemma malloc_frame: "malloc s = (b, s') \<Longrightarrow> udevdb s' = udevdb s"
  by (auto simp add: malloc_def advance_def)

lemma fetch_rec_frame:
  assumes "fetch_rec s k dec = Returns (r, s')"
  shows "\<exists>db. udevdb s = Some db \<and> udevdb s' = Some db"
proof -
  from assms obtain d s1 where f: "tdb_fetch s k = Returns (d, s1)"
    by (auto simp add: fetch_rec_def split: outcome.splits)
  from tdb_fetch_open[OF f] obtain db where db: "udevdb s = Some db" "udevdb s1 = Some db"
    by blast
  obtain b s2 where m: "malloc s1 = (b, s2)"
    by (cases "malloc s1") 
  from malloc_frame[OF m] db have s2: "udevdb s2 = Some db" by simp
  from assms f m have "s' = s1 \<or> s' = s2"
    by (auto simp add: fetch_rec_def split: option.splits tdb_data.splits bool.splits)
  with db s2 show ?thesis by auto
qed

lemma namedb_fetch_some_open:
  assumes "namedb_fetch lim s nm = Returns (Some r, s1)"
  shows "\<exists>db. udevdb s1 = Some db"
  using assms
  by (auto simp add: namedb_fetch_def split: option.splits if_splits dest: fetch_rec_frame)

lemma tdb_delete_returns:
  "udevdb s = Some db \<Longrightarrow> \<exists>r s' db'. tdb_delete s k = Returns (r, s') \<and> udevdb s' = Some db'"
  by (simp add: tdb_delete_def advance_def)

lemma busdb_delete_returns:
  assumes "limits_ok lim" "udevdb s = Some db"
  shows "\<exists>r s' db'. busdb_delete lim s (Some b) (Some i) = Returns (r, s') \<and> udevdb s' = Some db'"
proof (cases "length b \<ge> BUS_SIZE lim \<or> length i \<ge> ID_SIZE lim")
  case True
  with assms(2) show ?thesis by (simp add: busdb_delete_def)
next
  case False
  then have "build_key2 lim (BUS_SIZE lim + ID_SIZE lim + 2) b i = Returns (keystr2 lim b i)"
    using key_fits_bus[OF assms(1), of b i] by simp
  with False tdb_delete_returns[OF assms(2)] show ?thesis
    by (simp add: busdb_delete_def)
qed

lemma classdb_delete_returns:
  assumes "limits_ok lim" "udevdb s = Some db"
  shows "\<exists>r s' db'. classdb_delete lim s (Some c) (Some e) = Returns (r, s') \<and> udevdb s' = Some db'"
proof (cases "length c \<ge> NAME_SIZE lim \<or> length e \<ge> NAME_SIZE lim")
  case True
  with assms(2) show ?thesis by (simp add: classdb_delete_def)
next
  case False
  then have "build_key2 lim (NAME_SIZE lim + NAME_SIZE lim + 2) c e = Returns (keystr2 lim c e)"
    using key_fits_class[OF assms(1), of c e] by simp
  with False tdb_delete_returns[OF assms(2)] show ?thesis
    by (simp add: classdb_delete_def)
qed

lemma namedb_delete_returns:
  assumes "udevdb s = Some db"
  shows "\<exists>r s'. namedb_delete lim s (Some n) = Returns (r, s')"
  using tdb_delete_returns[OF assms, of n]
  by (auto simp add: namedb_delete_def)

subsection \<open>Lookups that return leave the mapping as it was\<close>

lemma busdb_fetch_frame:
  "busdb_fetch lim s bus id' = Returns (r, s') \<Longrightarrow> udevdb s' = udevdb s"
  by (auto simp add: busdb_fetch_def split: option.splits if_splits outcome.splits
      dest: fetch_rec_frame)

lemma classdb_fetch_frame:
  "classdb_fetch lim s cls cls_dev = Returns (r, s') \<Longrightarrow> udevdb s' = udevdb s"
  by (auto simp add: classdb_fetch_def split: option.splits if_splits outcome.splits
      dest: fetch_rec_frame)

lemma sysfsdb_fetch_frame:
  "sysfsdb_fetch lim s path = Returns (r, s') \<Longrightarrow> udevdb s' = udevdb s"
  by (auto simp add: sysfsdb_fetch_def split: option.splits if_splits
      dest: fetch_rec_frame)

lemma namedb_fetch_frame:
  "namedb_fetch lim s nm = Returns (r, s') \<Longrightarrow> udevdb s' = udevdb s"
  by (auto simp add: namedb_fetch_def split: option.splits if_splits
      dest: fetch_rec_frame)

lemma get_udevice_frame:
  assumes "udevdb_get_udevice lim s blk nm = Returns (r, s')"
  shows "udevdb s' = udevdb s"
proof (cases nm)
  case None
  with assms show ?thesis by (simp add: udevdb_get_udevice_def)
next
  case (Some n)
  with assms obtain nrec s1 where f: "namedb_fetch lim s (Some n) = Returns (nrec, s1)"
    by (auto simp add: udevdb_get_udevice_def split: outcome.splits)
  note s1 = namedb_fetch_frame[OF f]
  obtain b s2 where m: "malloc s1 = (b, s2)"
    by (cases "malloc s1")
  note s2 = malloc_frame[OF m]
  from assms Some f m have "s' = s1 \<or> s' = s2"
    by (auto simp add: udevdb_get_udevice_def split: option.splits bool.splits if_splits)
  with s1 s2 show ?thesis by auto
qed

lemma get_udevice_by_bus_frame:
  assumes "udevdb_get_udevice_by_bus lim s blk bus id' = Returns (r, s')"
  shows "udevdb s' = udevdb s"
  using assms
  by (auto simp add: udevdb_get_udevice_by_bus_def
      split: option.splits outcome.splits if_splits
      dest!: busdb_fetch_frame get_udevice_frame)

lemma get_udevice_by_class_frame:
  assumes "udevdb_get_udevice_by_class lim s blk cls cls_dev = Returns (r, s')"
  shows "udevdb s' = udevdb s"
  using assms
  by (auto simp add: udevdb_get_udevice_by_class_def
      split: option.splits outcome.splits if_splits
      dest!: classdb_fetch_frame get_udevice_frame)

lemma get_udevice_by_sysfs_frame:
  assumes "udevdb_get_udevice_by_sysfs lim s path = Returns (r, s')"
  shows "udevdb s' = udevdb s"
  using assms
  by (auto simp add: udevdb_get_udevice_by_sysfs_def
      split: option.splits outcome.splits
      dest!: sysfsdb_fetch_frame)

subsection \<open>Splitting a key at a delimiter\<close>

lemma append_delim_eq:
  assumes "a @ c # b = a' @ c # b'" "c \<notin> set a" "c \<notin> set a'"
  shows "a = a' \<and> b = b'"
proof -
  have "takeWhile (\<lambda>x. x \<noteq> c) (a @ c # b) = a"
    using assms(2) by (subst takeWhile_append2) auto
  moreover have "takeWhile (\<lambda>x. x \<noteq> c) (a' @ c # b') = a'"
    using assms(3) by (subst takeWhile_append2) auto
  ultimately have "a = a'" using assms(1) by simp
  with assms(1) show ?thesis by simp
qed

subsection \<open>What a call that returns 0 has done\<close>

lemma fits_take: "fits n (take n x) \<Longrightarrow> take n x = x"
  by (simp add: fits_def min_def split: if_splits)

lemma tdb_store_inv:
  "tdb_store s k v = Returns (0, s') \<Longrightarrow>
   \<exists>db. udevdb s = Some db \<and> udevdb s' = Some (db(k \<mapsto> v))"
  by (auto simp add: tdb_store_def advance_def split: option.splits if_splits)

lemma fill_dbdev_inv:
  assumes "fill_dbdev lim cd nm t ma mi mo = Returns d"
  shows "\<exists>n. nm = Some n \<and> name d = take (NAME_SIZE lim) n
     \<and> sysfs_dev_path d = take (PATH_SIZE lim) (sysdevice_path cd)
     \<and> class_dev_name d = take (NAME_SIZE lim) (cdev_name cd)
     \<and> class_name d = []
     \<and> bus_id d = take (ID_SIZE lim) (sysdevice_bus_id cd)
     \<and> bus_name d = ''unknown''
     \<and> driver d = take (NAME_SIZE lim) (driver_name cd)
     \<and> type d = t \<and> major d = ma \<and> minor d = mi \<and> mode d = mo"
  using assms
  by (auto simp add: fill_dbdev_def strncpy_def zero_udevice_def sysdevice_path_def
      sysdevice_bus_id_def driver_name_def fits_def Let_def
      split: option.splits if_splits)

lemma busdb_store_inv:
  assumes "busdb_store lim s (Some d) = Returns (0, s')"
  shows "fits (BUS_SIZE lim) (bus_name d) \<and> fits (ID_SIZE lim) (bus_id d) \<and> fits (NAME_SIZE lim) (name d)
    \<and> (\<exists>db. udevdb s = Some db
          \<and> udevdb s' = Some (db(keystr2 lim (bus_name d) (bus_id d) \<mapsto> Index_rec (name d))))"
  using assms
  by (auto simp add: busdb_store_def build_key2_def dest: tdb_store_inv split: if_splits)

lemma classdb_store_inv:
  assumes "classdb_store lim s (Some d) = Returns (0, s')"
  shows "fits (NAME_SIZE lim) (class_dev_name d)
    \<and> (\<exists>db. udevdb s = Some db
          \<and> udevdb s' = Some (db(keystr2 lim (class_name d) (class_dev_name d) \<mapsto> Index_rec (name d))))"
  using assms
  by (auto simp add: classdb_store_def build_key2_def dest: tdb_store_inv split: if_splits)

lemma sysfs_store_inv:
  assumes "sysfs_store lim s device (Some d) = Returns (0, s')"
  shows "\<exists>p db. device = Some p \<and> udevdb s = Some db \<and> udevdb s' = Some (db(p \<mapsto> Sysfs_rec (name d)))"
  using assms
  by (auto simp add: sysfs_store_def dest: tdb_store_inv split: if_splits option.splits)

lemma namedb_store_inv:
  assumes "namedb_store lim s (Some d) = Returns (0, s')"
  shows "fits (PATH_SIZE lim) (sysfs_dev_path d) \<and> fits (NAME_SIZE lim) (driver d)
    \<and> (\<exists>db. udevdb s = Some db
          \<and> udevdb s' = Some (db(name d \<mapsto> Name_rec \<lparr>nr_sysfs_dev_path = sysfs_dev_path d,
                         nr_class_dev_name = class_dev_name d,
                         nr_class_name = class_name d,
                         nr_bus = bus_name d,
                         nr_id = bus_id d,
                         nr_driver = driver d,
                         nr_type = type d,
                         nr_major = major d,
                         nr_minor = minor d,
                         nr_mode = mode d\<rparr>)))"
  using assms
  by (auto simp add: namedb_store_def dest: tdb_store_inv split: if_splits)

lemma add_device_inv:
  assumes "udevdb_add_device lim s device class_dev nm t ma mi mo = Returns (0, s')"
  shows "\<exists>cd dbdev s1 s2 s3. class_dev = Some cd
     \<and> fill_dbdev lim cd nm t ma mi mo = Returns dbdev
     \<and> busdb_store lim s (Some dbdev) = Returns (0, s1)
     \<and> classdb_store lim s1 (Some dbdev) = Returns (0, s2)
     \<and> sysfs_store lim s2 device (Some dbdev) = Returns (0, s3)
     \<and> namedb_store lim s3 (Some dbdev) = Returns (0, s')"
  using assms
  by (auto simp add: udevdb_add_device_def ENODEV_def
      split: option.splits outcome.splits if_splits prod.splits)

subsection \<open>The concrete devices\<close>

lemma sample_limits_ok: "limits_ok sample_limits"
  by (simp add: limits_ok_def sample_limits_def fits_def)

lemma sda_valid: "valid_descriptor sample_limits ''/block/sda'' sda_class_dev ''sda''"
  by (simp add: valid_descriptor_def sample_limits_def sda_class_dev_def fits_def)

lemma sda_add:
  "udevdb_add_device sample_limits (running Map.empty []) (Some ''/block/sda'')
     (Some sda_class_dev) (Some ''sda'') CHR ''b'' 8 0 432 = Returns (0, sda_added)"
  unfolding add_device_ok[OF sample_limits_ok sda_valid]
  by (simp add: sda_added_def sda_db_def sda_rec_def add_writes_def
      keystr2_def sample_limits_def sda_class_dev_def sysdevice_bus_id_def sysdevice_path_def
      driver_name_def)

lemma tty_valid: "valid_descriptor sample_limits ''/class/tty/ttyS0'' tty_class_dev ''ttyS0''"
  by (simp add: valid_descriptor_def sample_limits_def tty_class_dev_def fits_def)

lemma tty_add:
  "udevdb_add_device sample_limits (running Map.empty []) (Some ''/class/tty/ttyS0'')
     (Some tty_class_dev) (Some ''ttyS0'') CHR ''c'' 4 64 432 = Returns (0, tty_added)"
  unfolding add_device_ok[OF sample_limits_ok tty_valid]
  by (simp add: tty_added_def add_writes_def
      keystr2_def sample_limits_def tty_class_dev_def sysdevice_bus_id_def sysdevice_path_def
      driver_name_def)

lemmas eval_defs = udevdb_get_udevice_def udevdb_get_udevice_by_bus_def udevdb_get_udevice_by_class_def
  udevdb_get_udevice_by_sysfs_def busdb_fetch_def classdb_fetch_def sysfsdb_fetch_def namedb_fetch_def
  fetch_rec_running build_key2_def keystr2_def as_index_def as_sysfs_def as_name_def fits_def
  sample_limits_def

lemma clash_valid: "valid_descriptor sample_limits ''/block/sda'' sda_class_dev ''#sda''"
  by (simp add: valid_descriptor_def sample_limits_def sda_class_dev_def fits_def)

lemma clash_add:
  "udevdb_add_device sample_limits (running Map.empty []) (Some ''/block/sda'')
     (Some sda_class_dev) (Some ''#sda'') CHR ''b'' 8 0 432 = Returns (0, clash_added)"
  unfolding add_device_ok[OF sample_limits_ok clash_valid]
  by (simp add: clash_added_def add_writes_def
      keystr2_def sample_limits_def sda_class_dev_def sysdevice_bus_id_def sysdevice_path_def
      driver_name_def)



lemma sda_get:
  "udevdb_get_udevice sample_limits sda_added blk (Some ''sda'') =
     Returns (Some (blk\<lparr>name := ''sda'', sysfs_dev_path := ''/devices/scsi0/0:0:0:0'',
                         class_dev_name := ''sda'', class_name := [], bus_name := ''unknown'',
                         bus_id := ''0:0:0:0'', type := CHR ''b'', major := 8, minor := 0,
                         mode := 432\<rparr>), sda_added)"
  by (simp add: sda_added_def sda_db_def sda_rec_def udevdb_get_udevice_def namedb_fetch_def
      fetch_rec_running as_name_def fits_def sample_limits_def)

lemmas del_defs = udevdb_delete_udevice_def busdb_delete_def classdb_delete_def namedb_delete_def

lemma length_long_path: "length long_path = 256"
  by (simp add: long_path_def)

lemma length_long_name: "length long_name = 100"
  by (simp add: long_name_def)

lemmas add_defs = udevdb_add_device_def fill_dbdev_def busdb_store_def classdb_store_def
  sysfs_store_def namedb_store_def build_key2_def keystr2_def fits_def strncpy_def
  zero_udevice_def sample_limits_def sda_class_dev_def

section \<open>The claims\<close>

text \<open>
  C1. For every valid descriptor, on an open database whose engine and allocator do
  not fail, udevdb_add_device returns 0 and udevdb_get_udevice for the name then
  returns a device whose name, class device name, type, major, minor and mode are the
  descriptor's, whose sysfs path and bus id are those of the descriptor's sysfs device
  (empty strings when it has none), whose bus name is \<^verbatim>\<open>"unknown"\<close> and whose class
  name is empty. Nothing is said of the driver field: udevdb_get_udevice does not
  write it, so it keeps what the allocated block \<open>blk\<close> held. The name need not be new.
\<close>

theorem add_then_get_by_name:
  assumes "limits_ok lim" and "valid_descriptor lim device cd n"
  shows "\<exists>db'. udevdb_add_device lim (running db []) (Some device) (Some cd) (Some n)
                 type' major' minor' mode' = Returns (0, running db' [])
           \<and> udevdb_get_udevice lim (running db' []) blk (Some n) =
               Returns (Some (blk\<lparr>name := n,
                                   sysfs_dev_path := sysdevice_path cd,
                                   class_dev_name := cdev_name cd,
                                   class_name := [],
                                   bus_name := ''unknown'',
                                   bus_id := sysdevice_bus_id cd,
                                   type := type',
                                   major := major',
                                   minor := minor',
                                   mode := mode'\<rparr>), running db' [])"
  using add_device_ok[OF assms, of db type' major' minor' mode']
    get_after_add[OF assms, of db type' major' minor' mode' blk]
  by blast

text \<open>
  The theorem at the device of the scenario, fetched into a zeroed block: the
  hypotheses hold, and the device that comes back has an empty driver where the
  descriptor's driver is \<^verbatim>\<open>"sd"\<close>.
\<close>

theorem add_then_get_by_name_witness:
  "limits_ok sample_limits
   \<and> valid_descriptor sample_limits ''/block/sda'' sda_class_dev ''sda''
   \<and> udevdb_add_device sample_limits (running Map.empty []) (Some ''/block/sda'')
        (Some sda_class_dev) (Some ''sda'') CHR ''b'' 8 0 432 = Returns (0, sda_added)
   \<and> udevdb_get_udevice sample_limits sda_added zero_udevice (Some ''sda'') =
       Returns (Some \<lparr>name = ''sda'', sysfs_dev_path = ''/devices/scsi0/0:0:0:0'',
                       class_dev_name = ''sda'', class_name = [], bus_id = ''0:0:0:0'',
                       bus_name = ''unknown'', driver = [], type = CHR ''b'', major = 8,
                       minor = 0, mode = 432\<rparr>, sda_added)"
proof -
  obtain db' where
    add: "udevdb_add_device sample_limits (running Map.empty []) (Some ''/block/sda'')
            (Some sda_class_dev) (Some ''sda'') CHR ''b'' 8 0 432 = Returns (0, running db' [])"
    and get: "udevdb_get_udevice sample_limits (running db' []) zero_udevice (Some ''sda'') =
       Returns (Some (zero_udevice\<lparr>name := ''sda'',
                                   sysfs_dev_path := sysdevice_path sda_class_dev,
                                   class_dev_name := cdev_name sda_class_dev,
                                   class_name := [],
                                   bus_name := ''unknown'',
                                   bus_id := sysdevice_bus_id sda_class_dev,
                                   type := CHR ''b'',
                                   major := 8,
                                   minor := 0,
                                   mode := 432\<rparr>), running db' [])"
    using add_then_get_by_name[OF sample_limits_ok sda_valid, of Map.empty "CHR ''b''" 8 0 432
        zero_udevice]
    by blast
  from add have st: "running db' [] = sda_added"
    by (simp add: sda_add)
  from get have "udevdb_get_udevice sample_limits sda_added zero_udevice (Some ''sda'') =
       Returns (Some \<lparr>name = ''sda'', sysfs_dev_path = ''/devices/scsi0/0:0:0:0'',
                       class_dev_name = ''sda'', class_name = [], bus_id = ''0:0:0:0'',
                       bus_name = ''unknown'', driver = [], type = CHR ''b'', major = 8,
                       minor = 0, mode = 432\<rparr>, sda_added)"
    unfolding st
    by (simp add: zero_udevice_def sda_class_dev_def sysdevice_path_def sysdevice_bus_id_def)
  with sample_limits_ok sda_valid sda_add show ?thesis
    by blast
qed

text \<open>
  Where the claim as stated fails: a class device with neither sysfs device nor
  driver is added, and fetched into a block that was used before. The absent path,
  class name and bus id come back as empty strings, not as \<^verbatim>\<open>"unknown"\<close>, and the
  driver that comes back is the one the block held, not the \<^verbatim>\<open>"unknown"\<close> that
  udevdb_add_device stored for the absent driver.
\<close>

theorem add_then_get_by_name_counterexample:
  "udevdb_add_device sample_limits (running Map.empty []) (Some ''/class/tty/ttyS0'')
     (Some tty_class_dev) (Some ''ttyS0'') CHR ''c'' 4 64 432 = Returns (0, tty_added)
   \<and> udevdb_get_udevice sample_limits tty_added used_block (Some ''ttyS0'') =
       Returns (Some \<lparr>name = ''ttyS0'', sysfs_dev_path = [], class_dev_name = ''ttyS0'',
                       class_name = [], bus_id = [], bus_name = ''unknown'',
                       driver = ''usb-storage'', type = CHR ''c'', major = 4, minor = 64,
                       mode = 432\<rparr>, tty_added)
   \<and> driver_name tty_class_dev = ''unknown''"
  by (simp add: tty_add)
    (simp add: tty_added_def udevdb_get_udevice_def namedb_fetch_def fetch_rec_running
      as_name_def fits_def sample_limits_def used_block_def zero_udevice_def
      driver_name_def tty_class_dev_def)

text \<open>
  C5. For every valid descriptor whose name is neither the key of its bus index entry
  nor the key of its class index entry, on an open database whose engine and allocator
  do not fail: after udevdb_add_device, udevdb_get_udevice_by_bus with the bus
  \<^verbatim>\<open>"unknown"\<close> and the descriptor's bus id, and udevdb_get_udevice_by_class with the
  empty class name and the descriptor's class device name, each return a device, not
  NULL, that agrees with the device udevdb_get_udevice returns for the name in every
  field but the driver. Each lookup allocates a block of its own (\<open>blk\<close>, \<open>blk_bus\<close>,
  \<open>blk_cls\<close>) and none writes the driver field, so the driver of each device is what
  its block held.
\<close>

theorem add_then_get_by_index:
  assumes "limits_ok lim" and "valid_descriptor lim device cd n"
    and "n \<noteq> keystr2 lim ''unknown'' (sysdevice_bus_id cd)"
    and "n \<noteq> keystr2 lim [] (cdev_name cd)"
  shows "\<exists>db' dev.
           udevdb_add_device lim (running db []) (Some device) (Some cd) (Some n)
             type' major' minor' mode' = Returns (0, running db' [])
           \<and> udevdb_get_udevice lim (running db' []) blk (Some n) = Returns (Some dev, running db' [])
           \<and> udevdb_get_udevice_by_bus lim (running db' []) blk_bus
                (Some ''unknown'') (Some (sysdevice_bus_id cd)) =
               Returns (Some (dev\<lparr>driver := driver blk_bus\<rparr>), running db' [])
           \<and> udevdb_get_udevice_by_class lim (running db' []) blk_cls
                (Some []) (Some (cdev_name cd)) =
               Returns (Some (dev\<lparr>driver := driver blk_cls\<rparr>), running db' [])"
proof -
  let ?ws = "add_writes lim device cd n type' major' minor' mode'"
  let ?db' = "store_all db ?ws"
  let ?kb = "keystr2 lim ''unknown'' (sysdevice_bus_id cd)"
  let ?kc = "keystr2 lim [] (cdev_name cd)"
  let ?dev = "\<lambda>b. b\<lparr>name := n,
                       sysfs_dev_path := sysdevice_path cd,
                       class_dev_name := cdev_name cd,
                       class_name := [],
                       bus_name := ''unknown'',
                       bus_id := sysdevice_bus_id cd,
                       type := type',
                       major := major',
                       minor := minor',
                       mode := mode'\<rparr>"
  note fit = valid_fits[OF assms(1,2)]
  have add: "udevdb_add_device lim (running db []) (Some device) (Some cd) (Some n)
            type' major' minor' mode' = Returns (0, running ?db' [])"
    by (rule add_device_ok[OF assms(1,2)])
  have get: "udevdb_get_udevice lim (running ?db' []) b (Some n) =
      Returns (Some (?dev b), running ?db' [])" for b
    by (rule get_after_add[OF assms(1,2)])
  have same: "?dev b = (?dev blk)\<lparr>driver := driver b\<rparr>" for b
    by (rule written_fields_same)
  have "?db' ?kb = Some (Index_rec n) \<or> ?db' ?kb = Some (Sysfs_rec n)"
    using assms(3) by (simp add: add_writes_def)
  then obtain d where d: "?db' ?kb = Some d" "d = Index_rec n \<or> d = Sysfs_rec n"
    by blast
  have brec: "busdb_fetch lim (running ?db' []) (Some ''unknown'') (Some (sysdevice_bus_id cd)) =
      Returns (Some n, running ?db' [])"
    using busdb_fetch_found[of lim "''unknown''" "sysdevice_bus_id cd" ?db' d n] d(1)
      as_index_own_name[OF assms(1) fit(4) d(2)] fit assms(1)
    by (simp add: fits_def)
  have "?db' ?kc = Some (Index_rec n) \<or> ?db' ?kc = Some (Sysfs_rec n)"
    using assms(4) by (simp add: add_writes_def)
  then obtain e where e: "?db' ?kc = Some e" "e = Index_rec n \<or> e = Sysfs_rec n"
    by blast
  have crec: "classdb_fetch lim (running ?db' []) (Some []) (Some (cdev_name cd)) =
      Returns (Some n, running ?db' [])"
    using classdb_fetch_found[of lim "[]" "cdev_name cd" ?db' e n] e(1)
      as_index_own_name[OF assms(1) fit(4) e(2)] fit assms(1)
    by (simp add: fits_def)
  have "udevdb_get_udevice_by_bus lim (running ?db' []) blk_bus
          (Some ''unknown'') (Some (sysdevice_bus_id cd)) =
        Returns (Some (?dev blk_bus), running ?db' [])"
    using fit(4) by (simp add: udevdb_get_udevice_by_bus_def brec get)
  then have bus: "udevdb_get_udevice_by_bus lim (running ?db' []) blk_bus
          (Some ''unknown'') (Some (sysdevice_bus_id cd)) =
        Returns (Some ((?dev blk)\<lparr>driver := driver blk_bus\<rparr>), running ?db' [])"
    using same[of blk_bus] by simp
  have "udevdb_get_udevice_by_class lim (running ?db' []) blk_cls
          (Some []) (Some (cdev_name cd)) =
        Returns (Some (?dev blk_cls), running ?db' [])"
    using fit(4) by (simp add: udevdb_get_udevice_by_class_def crec get)
  then have cls: "udevdb_get_udevice_by_class lim (running ?db' []) blk_cls
          (Some []) (Some (cdev_name cd)) =
        Returns (Some ((?dev blk)\<lparr>driver := driver blk_cls\<rparr>), running ?db' [])"
    using same[of blk_cls] by simp
  from add get[of blk] bus cls show ?thesis by blast
qed

text \<open>
  The theorem at the device of the scenario, with a zeroed block for the lookups by
  name and by class and a block that was used before for the lookup by bus.
\<close>

theorem add_then_get_by_index_witness:
  "limits_ok sample_limits
   \<and> valid_descriptor sample_limits ''/block/sda'' sda_class_dev ''sda''
   \<and> ''sda'' \<noteq> keystr2 sample_limits ''unknown'' (sysdevice_bus_id sda_class_dev)
   \<and> ''sda'' \<noteq> keystr2 sample_limits [] (cdev_name sda_class_dev)
   \<and> udevdb_get_udevice sample_limits sda_added zero_udevice (Some ''sda'') =
       Returns (Some \<lparr>name = ''sda'', sysfs_dev_path = ''/devices/scsi0/0:0:0:0'',
                       class_dev_name = ''sda'', class_name = [], bus_id = ''0:0:0:0'',
                       bus_name = ''unknown'', driver = [], type = CHR ''b'', major = 8,
                       minor = 0, mode = 432\<rparr>, sda_added)
   \<and> udevdb_get_udevice_by_bus sample_limits sda_added used_block
        (Some ''unknown'') (Some ''0:0:0:0'') =
       Returns (Some \<lparr>name = ''sda'', sysfs_dev_path = ''/devices/scsi0/0:0:0:0'',
                       class_dev_name = ''sda'', class_name = [], bus_id = ''0:0:0:0'',
                       bus_name = ''unknown'', driver = ''usb-storage'', type = CHR ''b'',
                       major = 8, minor = 0, mode = 432\<rparr>, sda_added)
   \<and> udevdb_get_udevice_by_class sample_limits sda_added zero_udevice
        (Some []) (Some ''sda'') =
       Returns (Some \<lparr>name = ''sda'', sysfs_dev_path = ''/devices/scsi0/0:0:0:0'',
                       class_dev_name = ''sda'', class_name = [], bus_id = ''0:0:0:0'',
                       bus_name = ''unknown'', driver = [], type = CHR ''b'', major = 8,
                       minor = 0, mode = 432\<rparr>, sda_added)"
proof -
  let ?dev0 = "\<lparr>name = ''sda'', sysfs_dev_path = ''/devices/scsi0/0:0:0:0'',
                 class_dev_name = ''sda'', class_name = [], bus_id = ''0:0:0:0'',
                 bus_name = ''unknown'', driver = [], type = CHR ''b'', major = 8,
                 minor = 0, mode = 432\<rparr>"
  have k1: "''sda'' \<noteq> keystr2 sample_limits ''unknown'' (sysdevice_bus_id sda_class_dev)"
    by (simp add: keystr2_def)
  have k2: "''sda'' \<noteq> keystr2 sample_limits [] (cdev_name sda_class_dev)"
    by (simp add: keystr2_def sample_limits_def)
  have i: "sysdevice_bus_id sda_class_dev = ''0:0:0:0''" "cdev_name sda_class_dev = ''sda''"
    by (simp_all add: sysdevice_bus_id_def sda_class_dev_def)
  have g0: "udevdb_get_udevice sample_limits sda_added zero_udevice (Some ''sda'') =
      Returns (Some ?dev0, sda_added)"
    by (simp add: sda_get zero_udevice_def)
  obtain db' dev where
    add: "udevdb_add_device sample_limits (running Map.empty []) (Some ''/block/sda'')
            (Some sda_class_dev) (Some ''sda'') CHR ''b'' 8 0 432 = Returns (0, running db' [])"
    and get: "udevdb_get_udevice sample_limits (running db' []) zero_udevice (Some ''sda'') =
            Returns (Some dev, running db' [])"
    and bus: "udevdb_get_udevice_by_bus sample_limits (running db' []) used_block
            (Some ''unknown'') (Some (sysdevice_bus_id sda_class_dev)) =
            Returns (Some (dev\<lparr>driver := driver used_block\<rparr>), running db' [])"
    and cls: "udevdb_get_udevice_by_class sample_limits (running db' []) zero_udevice
            (Some []) (Some (cdev_name sda_class_dev)) =
            Returns (Some (dev\<lparr>driver := driver zero_udevice\<rparr>), running db' [])"
    using add_then_get_by_index[OF sample_limits_ok sda_valid k1 k2, of Map.empty "CHR ''b''" 8 0 432
        zero_udevice used_block zero_udevice]
    by blast
  from add have st: "running db' [] = sda_added"
    by (simp add: sda_add)
  from get g0 have dev: "dev = ?dev0"
    unfolding st by simp
  from bus have b: "udevdb_get_udevice_by_bus sample_limits sda_added used_block
        (Some ''unknown'') (Some ''0:0:0:0'') =
       Returns (Some \<lparr>name = ''sda'', sysfs_dev_path = ''/devices/scsi0/0:0:0:0'',
                       class_dev_name = ''sda'', class_name = [], bus_id = ''0:0:0:0'',
                       bus_name = ''unknown'', driver = ''usb-storage'', type = CHR ''b'',
                       major = 8, minor = 0, mode = 432\<rparr>, sda_added)"
    unfolding st i dev by (simp add: used_block_def zero_udevice_def)
  from cls have c: "udevdb_get_udevice_by_class sample_limits sda_added zero_udevice
        (Some []) (Some ''sda'') = Returns (Some ?dev0, sda_added)"
    unfolding st i dev by (simp add: zero_udevice_def)
  from sample_limits_ok sda_valid k1 k2 g0 b c show ?thesis
    by blast
qed

text \<open>
  Where the claim as stated fails. The device of the scenario is on the bus
  \<^verbatim>\<open>"scsi"\<close> and in the class \<^verbatim>\<open>"block"\<close>, and after it was added the lookups by
  that bus and by that class return NULL, since udevdb_add_device is given neither
  and files the device under \<^verbatim>\<open>"unknown"\<close> and the empty class. The lookup by the
  bus \<^verbatim>\<open>"unknown"\<close> into a block that was used before returns a device whose driver
  is the one the block held, while the lookup by name into a zeroed block returns one
  with an empty driver. And a valid descriptor whose name is the key of its own class
  index entry replaces that entry by its record, after which the lookup by class
  returns NULL while the lookup by name returns the device.
\<close>

theorem add_then_get_by_index_counterexample:
  "udevdb_add_device sample_limits (running Map.empty []) (Some ''/block/sda'')
     (Some sda_class_dev) (Some ''sda'') CHR ''b'' 8 0 432 = Returns (0, sda_added)
   \<and> udevdb_get_udevice_by_bus sample_limits sda_added zero_udevice
        (Some ''scsi'') (Some ''0:0:0:0'') = Returns (None, sda_added)
   \<and> udevdb_get_udevice_by_class sample_limits sda_added zero_udevice
        (Some ''block'') (Some ''sda'') = Returns (None, sda_added)
   \<and> udevdb_get_udevice sample_limits sda_added zero_udevice (Some ''sda'') =
       Returns (Some \<lparr>name = ''sda'', sysfs_dev_path = ''/devices/scsi0/0:0:0:0'',
                       class_dev_name = ''sda'', class_name = [], bus_id = ''0:0:0:0'',
                       bus_name = ''unknown'', driver = [], type = CHR ''b'', major = 8,
                       minor = 0, mode = 432\<rparr>, sda_added)
   \<and> udevdb_get_udevice_by_bus sample_limits sda_added used_block
        (Some ''unknown'') (Some ''0:0:0:0'') =
       Returns (Some \<lparr>name = ''sda'', sysfs_dev_path = ''/devices/scsi0/0:0:0:0'',
                       class_dev_name = ''sda'', class_name = [], bus_id = ''0:0:0:0'',
                       bus_name = ''unknown'', driver = ''usb-storage'', type = CHR ''b'',
                       major = 8, minor = 0, mode = 432\<rparr>, sda_added)
   \<and> valid_descriptor sample_limits ''/block/sda'' sda_class_dev ''#sda''
   \<and> udevdb_add_device sample_limits (running Map.empty []) (Some ''/block/sda'')
        (Some sda_class_dev) (Some ''#sda'') CHR ''b'' 8 0 432 = Returns (0, clash_added)
   \<and> udevdb_get_udevice_by_class sample_limits clash_added zero_udevice
        (Some []) (Some ''sda'') = Returns (None, clash_added)
   \<and> udevdb_get_udevice sample_limits clash_added zero_udevice (Some ''#sda'') =
       Returns (Some \<lparr>name = ''#sda'', sysfs_dev_path = ''/devices/scsi0/0:0:0:0'',
                       class_dev_name = ''sda'', class_name = [], bus_id = ''0:0:0:0'',
                       bus_name = ''unknown'', driver = [], type = CHR ''b'', major = 8,
                       minor = 0, mode = 432\<rparr>, clash_added)"
proof -
  have a: "udevdb_get_udevice_by_bus sample_limits sda_added zero_udevice
        (Some ''scsi'') (Some ''0:0:0:0'') = Returns (None, sda_added)"
    by (simp add: sda_added_def sda_db_def sda_rec_def eval_defs)
  have b: "udevdb_get_udevice_by_class sample_limits sda_added zero_udevice
        (Some ''block'') (Some ''sda'') = Returns (None, sda_added)"
    by (simp add: sda_added_def sda_db_def sda_rec_def eval_defs)
  have g: "udevdb_get_udevice sample_limits sda_added zero_udevice (Some ''sda'') =
       Returns (Some \<lparr>name = ''sda'', sysfs_dev_path = ''/devices/scsi0/0:0:0:0'',
                       class_dev_name = ''sda'', class_name = [], bus_id = ''0:0:0:0'',
                       bus_name = ''unknown'', driver = [], type = CHR ''b'', major = 8,
                       minor = 0, mode = 432\<rparr>, sda_added)"
    by (simp add: sda_get zero_udevice_def)
  have h: "udevdb_get_udevice_by_bus sample_limits sda_added used_block
        (Some ''unknown'') (Some ''0:0:0:0'') =
       Returns (Some \<lparr>name = ''sda'', sysfs_dev_path = ''/devices/scsi0/0:0:0:0'',
                       class_dev_name = ''sda'', class_name = [], bus_id = ''0:0:0:0'',
                       bus_name = ''unknown'', driver = ''usb-storage'', type = CHR ''b'',
                       major = 8, minor = 0, mode = 432\<rparr>, sda_added)"
    by (simp add: sda_added_def sda_db_def sda_rec_def eval_defs used_block_def zero_udevice_def)
  have c: "udevdb_get_udevice_by_class sample_limits clash_added zero_udevice
        (Some []) (Some ''sda'') = Returns (None, clash_added)"
    by (simp add: clash_added_def eval_defs)
  have d: "udevdb_get_udevice sample_limits clash_added zero_udevice (Some ''#sda'') =
       Returns (Some \<lparr>name = ''#sda'', sysfs_dev_path = ''/devices/scsi0/0:0:0:0'',
                       class_dev_name = ''sda'', class_name = [], bus_id = ''0:0:0:0'',
                       bus_name = ''unknown'', driver = [], type = CHR ''b'', major = 8,
                       minor = 0, mode = 432\<rparr>, clash_added)"
    by (simp add: clash_added_def eval_defs zero_udevice_def)
  from sda_add a b g h clash_valid clash_add c d show ?thesis by blast
qed

text \<open>
  C10. Whenever udevdb_add_device returns 0, the database was open and has become the
  one before the call with four entries written over it: the device name under the
  key made of \<^verbatim>\<open>"unknown"\<close>, the delimiter and the bus id of the sysfs device; the
  device name under the key made of the empty class name, the delimiter and the class
  device name; the device name under the sysfs key; and under the device name a
  record whose bus is \<^verbatim>\<open>"unknown"\<close> and whose class name is empty.
\<close>

theorem add_device_normalizes:
  assumes "udevdb_add_device lim s device class_dev nm type' major' minor' mode' = Returns (0, s')"
  shows "\<exists>db p cd n r.
           device = Some p \<and> class_dev = Some cd \<and> nm = Some n \<and> udevdb s = Some db
           \<and> udevdb s' =
               Some (db(keystr2 lim ''unknown'' (sysdevice_bus_id cd) \<mapsto> Index_rec n,
                        keystr2 lim [] (cdev_name cd) \<mapsto> Index_rec n,
                        p \<mapsto> Sysfs_rec n,
                        n \<mapsto> Name_rec r))
           \<and> nr_bus r = ''unknown'' \<and> nr_class_name r = []"
proof -
  from add_device_inv[OF assms] obtain cd d s1 s2 s3 where
    cd: "class_dev = Some cd"
    and fill: "fill_dbdev lim cd nm type' major' minor' mode' = Returns d"
    and st1: "busdb_store lim s (Some d) = Returns (0, s1)"
    and st2: "classdb_store lim s1 (Some d) = Returns (0, s2)"
    and st3: "sysfs_store lim s2 device (Some d) = Returns (0, s3)"
    and st4: "namedb_store lim s3 (Some d) = Returns (0, s')"
    by blast
  from fill_dbdev_inv[OF fill] obtain n where
    n: "nm = Some n" and f: "name d = take (NAME_SIZE lim) n"
      "class_dev_name d = take (NAME_SIZE lim) (cdev_name cd)"
      "class_name d = []"
      "bus_id d = take (ID_SIZE lim) (sysdevice_bus_id cd)"
      "bus_name d = ''unknown''"
    by blast
  from busdb_store_inv[OF st1] obtain db where
    b: "fits (ID_SIZE lim) (bus_id d)" "fits (NAME_SIZE lim) (name d)"
      "udevdb s = Some db"
      "udevdb s1 = Some (db(keystr2 lim (bus_name d) (bus_id d) \<mapsto> Index_rec (name d)))"
    by blast
  have nd: "name d = n" using f(1) b(2) fits_take by metis
  have idd: "bus_id d = sysdevice_bus_id cd" using f(4) b(1) fits_take by metis
  from classdb_store_inv[OF st2] b(4) have
    c: "fits (NAME_SIZE lim) (class_dev_name d)"
      "udevdb s2 = Some (db(keystr2 lim (bus_name d) (bus_id d) \<mapsto> Index_rec (name d),
           keystr2 lim (class_name d) (class_dev_name d) \<mapsto> Index_rec (name d)))"
    by auto
  have cdd: "class_dev_name d = cdev_name cd" using f(2) c(1) fits_take by metis
  from sysfs_store_inv[OF st3] c(2) obtain p where
    p: "device = Some p"
      "udevdb s3 = Some (db(keystr2 lim (bus_name d) (bus_id d) \<mapsto> Index_rec (name d),
           keystr2 lim (class_name d) (class_dev_name d) \<mapsto> Index_rec (name d),
           p \<mapsto> Sysfs_rec (name d)))"
    by auto
  let ?r = "\<lparr>nr_sysfs_dev_path = sysfs_dev_path d,
                         nr_class_dev_name = class_dev_name d,
                         nr_class_name = class_name d,
                         nr_bus = bus_name d,
                         nr_id = bus_id d,
                         nr_driver = driver d,
                         nr_type = type d,
                         nr_major = major d,
                         nr_minor = minor d,
                         nr_mode = mode d\<rparr>"
  from namedb_store_inv[OF st4] p(2) have
    "udevdb s' = Some (db(keystr2 lim (bus_name d) (bus_id d) \<mapsto> Index_rec (name d),
           keystr2 lim (class_name d) (class_dev_name d) \<mapsto> Index_rec (name d),
           p \<mapsto> Sysfs_rec (name d), name d \<mapsto> Name_rec ?r))"
    by auto
  then have fin: "udevdb s' = Some (db(keystr2 lim ''unknown'' (sysdevice_bus_id cd) \<mapsto> Index_rec n,
                        keystr2 lim [] (cdev_name cd) \<mapsto> Index_rec n,
                        p \<mapsto> Sysfs_rec n,
                        n \<mapsto> Name_rec ?r))"
    by (simp add: nd idd cdd f(3,5))
  have "nr_bus ?r = ''unknown''" "nr_class_name ?r = []"
    by (simp_all add: f)
  with cd n p(1) b(3) fin show ?thesis by blast
qed

text \<open>The theorem at the device of the scenario.\<close>

theorem add_device_normalizes_witness:
  "udevdb_add_device sample_limits (running Map.empty []) (Some ''/block/sda'')
     (Some sda_class_dev) (Some ''sda'') CHR ''b'' 8 0 432 = Returns (0, sda_added)
   \<and> (\<exists>r. udevdb sda_added =
             Some [keystr2 sample_limits ''unknown'' ''0:0:0:0'' \<mapsto> Index_rec ''sda'',
                   keystr2 sample_limits [] ''sda'' \<mapsto> Index_rec ''sda'',
                   ''/block/sda'' \<mapsto> Sysfs_rec ''sda'',
                   ''sda'' \<mapsto> Name_rec r]
           \<and> nr_bus r = ''unknown'' \<and> nr_class_name r = [])"
proof -
  have i: "sysdevice_bus_id sda_class_dev = ''0:0:0:0''" "cdev_name sda_class_dev = ''sda''"
    by (simp_all add: sysdevice_bus_id_def sda_class_dev_def)
  from add_device_normalizes[OF sda_add] obtain db p cd n r where
    "Some ''/block/sda'' = Some p" "Some sda_class_dev = Some cd" "Some ''sda'' = Some n"
    "udevdb (running Map.empty []) = Some db"
    "udevdb sda_added =
       Some (db(keystr2 sample_limits ''unknown'' (sysdevice_bus_id cd) \<mapsto> Index_rec n,
                keystr2 sample_limits [] (cdev_name cd) \<mapsto> Index_rec n,
                p \<mapsto> Sysfs_rec n,
                n \<mapsto> Name_rec r))"
    "nr_bus r = ''unknown''" "nr_class_name r = []"
    by blast
  then have "udevdb sda_added =
             Some [keystr2 sample_limits ''unknown'' ''0:0:0:0'' \<mapsto> Index_rec ''sda'',
                   keystr2 sample_limits [] ''sda'' \<mapsto> Index_rec ''sda'',
                   ''/block/sda'' \<mapsto> Sysfs_rec ''sda'',
                   ''sda'' \<mapsto> Name_rec r]
           \<and> nr_bus r = ''unknown'' \<and> nr_class_name r = []"
    using i by auto
  with sda_add show ?thesis by blast
qed







text \<open>
  C8. Whenever the record under the name is fetched, udevdb_delete_udevice returns
  0, whatever the three deletions return: an index entry that is missing and a
  deletion that fails in the engine are ignored alike, and no error is reported.
\<close>

theorem delete_ignores_failures:
  assumes "limits_ok lim" and "namedb_fetch lim s (Some n) = Returns (Some nrec, s1)"
  shows "\<exists>s'. udevdb_delete_udevice lim s (Some n) = Returns (0, s')"
proof -
  from namedb_fetch_some_open[OF assms(2)] obtain db1 where "udevdb s1 = Some db1"
    by blast
  from busdb_delete_returns[OF assms(1) this] obtain r2 s2 db2 where
    b: "busdb_delete lim s1 (Some (nr_bus nrec)) (Some (nr_id nrec)) = Returns (r2, s2)"
    and "udevdb s2 = Some db2"
    by blast
  from classdb_delete_returns[OF assms(1) this(2)] obtain r3 s3 db3 where
    c: "classdb_delete lim s2 (Some (nr_class_name nrec)) (Some (nr_class_dev_name nrec)) =
          Returns (r3, s3)"
    and "udevdb s3 = Some db3"
    by blast
  from namedb_delete_returns[OF this(2)] obtain r4 s4 where
    d: "namedb_delete lim s3 (Some n) = Returns (r4, s4)"
    by blast
  from assms(2) b c d show ?thesis
    by (simp add: udevdb_delete_udevice_def)
qed

text \<open>
  The theorem at the scenario's database, with all three deletions failing in the
  engine.
\<close>

theorem delete_ignores_failures_witness:
  "limits_ok sample_limits
   \<and> namedb_fetch sample_limits (running sda_db [False, False, True, True, True]) (Some ''sda'') =
       Returns (Some sda_rec, running sda_db [True, True, True])
   \<and> (\<exists>s'. udevdb_delete_udevice sample_limits (running sda_db [False, False, True, True, True])
              (Some ''sda'') = Returns (0, s'))"
proof -
  have f: "namedb_fetch sample_limits (running sda_db [False, False, True, True, True]) (Some ''sda'') =
       Returns (Some sda_rec, running sda_db [True, True, True])"
    by (simp add: namedb_fetch_def fetch_rec_def sample_limits_def sda_db_def as_name_def)
  from delete_ignores_failures[OF sample_limits_ok f] f sample_limits_ok show ?thesis
    by blast
qed

text \<open>
  Where the claim as stated fails: the deletion of the bus index entry fails in the
  engine. The call returns 0, the record is gone, and the bus index entry remains and
  still holds the name.
\<close>

theorem delete_ignores_failures_counterexample:
  "udevdb_delete_udevice sample_limits (running sda_db [False, False, True]) (Some ''sda'') =
     Returns (0, bus_dangling)
   \<and> busdb_fetch sample_limits bus_dangling (Some ''unknown'') (Some ''0:0:0:0'') =
       Returns (Some ''sda'', bus_dangling)
   \<and> udevdb_get_udevice sample_limits bus_dangling zero_udevice (Some ''sda'') =
       Returns (None, bus_dangling)"
proof -
  have a: "udevdb_delete_udevice sample_limits (running sda_db [False, False, True]) (Some ''sda'') =
     Returns (0, bus_dangling)"
    by (simp add: del_defs namedb_fetch_def fetch_rec_def build_key2_def keystr2_def as_name_def
        fits_def sample_limits_def bus_dangling_def sda_db_def sda_rec_def)
  have b: "busdb_fetch sample_limits bus_dangling (Some ''unknown'') (Some ''0:0:0:0'') =
       Returns (Some ''sda'', bus_dangling)"
    by (simp add: bus_dangling_def sda_db_def sda_rec_def eval_defs)
  have c: "udevdb_get_udevice sample_limits bus_dangling zero_udevice (Some ''sda'') =
       Returns (None, bus_dangling)"
    by (simp add: bus_dangling_def sda_db_def sda_rec_def eval_defs)
  from a b c show ?thesis by blast
qed

text \<open>
  C9. For every state and every input, each of the four lookups, whenever it returns
  (a device, a name or NULL), leaves the key-value mapping of the database as it was.
  The state as a whole may differ: the lookup has used up the outcomes of its engine
  and allocator calls.
\<close>

theorem lookups_keep_mapping:
  "(\<forall>r s'. udevdb_get_udevice lim s blk nm = Returns (r, s') \<longrightarrow> udevdb s' = udevdb s)
   \<and> (\<forall>r s'. udevdb_get_udevice_by_bus lim s blk bus id' = Returns (r, s') \<longrightarrow> udevdb s' = udevdb s)
   \<and> (\<forall>r s'. udevdb_get_udevice_by_class lim s blk cls cls_dev = Returns (r, s')
         \<longrightarrow> udevdb s' = udevdb s)
   \<and> (\<forall>r s'. udevdb_get_udevice_by_sysfs lim s path = Returns (r, s') \<longrightarrow> udevdb s' = udevdb s)"
  by (auto dest: get_udevice_frame get_udevice_by_bus_frame get_udevice_by_class_frame
      get_udevice_by_sysfs_frame)

text \<open>
  The theorem at the scenario's database, for four lookups during which the
  allocator or the engine fails or a call is used up: each returns, in a state that
  differs from the one it started in, and the mapping is the same.
\<close>

theorem lookups_keep_mapping_witness:
  "udevdb_get_udevice sample_limits (running sda_db [False, True]) zero_udevice (Some ''sda'') =
     Returns (None, running sda_db [])
   \<and> udevdb_get_udevice_by_bus sample_limits (running sda_db [False, False, False, True]) zero_udevice
        (Some ''unknown'') (Some ''0:0:0:0'') = Returns (None, running sda_db [])
   \<and> udevdb_get_udevice_by_class sample_limits (running sda_db [True]) zero_udevice
        (Some []) (Some ''sda'') = Returns (None, running sda_db [])
   \<and> udevdb_get_udevice_by_sysfs sample_limits (running sda_db [False]) (Some ''/block/sda'') =
       Returns (Some ''sda'', running sda_db [])
   \<and> udevdb (running sda_db []) = udevdb (running sda_db [False, True])
   \<and> udevdb (running sda_db []) = udevdb (running sda_db [False, False, False, True])
   \<and> udevdb (running sda_db []) = udevdb (running sda_db [True])
   \<and> udevdb (running sda_db []) = udevdb (running sda_db [False])"
proof -
  have a: "udevdb_get_udevice sample_limits (running sda_db [False, True]) zero_udevice (Some ''sda'') =
     Returns (None, running sda_db [])"
    by (simp add: udevdb_get_udevice_def namedb_fetch_def fetch_rec_def as_name_def
        sample_limits_def sda_db_def)
  have b: "udevdb_get_udevice_by_bus sample_limits (running sda_db [False, False, False, True]) zero_udevice
        (Some ''unknown'') (Some ''0:0:0:0'') = Returns (None, running sda_db [])"
    by (simp add: udevdb_get_udevice_by_bus_def busdb_fetch_def build_key2_def keystr2_def
        as_index_def fits_def udevdb_get_udevice_def namedb_fetch_def fetch_rec_def as_name_def
        sample_limits_def sda_db_def)
  have c: "udevdb_get_udevice_by_class sample_limits (running sda_db [True]) zero_udevice
        (Some []) (Some ''sda'') = Returns (None, running sda_db [])"
    by (simp add: udevdb_get_udevice_by_class_def classdb_fetch_def build_key2_def keystr2_def
        fits_def fetch_rec_def sample_limits_def)
  have d: "udevdb_get_udevice_by_sysfs sample_limits (running sda_db [False]) (Some ''/block/sda'') =
       Returns (Some ''sda'', running sda_db [])"
    by (simp add: udevdb_get_udevice_by_sysfs_def sysfsdb_fetch_def fetch_rec_def as_sysfs_def
        sample_limits_def sda_db_def)
  from lookups_keep_mapping[of sample_limits "running sda_db [False, True]" zero_udevice
      "Some ''sda''" "Some ''unknown''" "Some ''0:0:0:0''" "Some []" "Some ''sda''" "Some ''/block/sda''"] a
  have a': "udevdb (running sda_db []) = udevdb (running sda_db [False, True])" by blast
  from lookups_keep_mapping[of sample_limits "running sda_db [False, False, False, True]" zero_udevice
      "Some ''sda''" "Some ''unknown''" "Some ''0:0:0:0''" "Some []" "Some ''sda''" "Some ''/block/sda''"] b
  have b': "udevdb (running sda_db []) = udevdb (running sda_db [False, False, False, True])" by blast
  from lookups_keep_mapping[of sample_limits "running sda_db [True]" zero_udevice
      "Some ''sda''" "Some ''unknown''" "Some ''0:0:0:0''" "Some []" "Some ''sda''" "Some ''/block/sda''"] c
  have c': "udevdb (running sda_db []) = udevdb (running sda_db [True])" by blast
  from lookups_keep_mapping[of sample_limits "running sda_db [False]" zero_udevice
      "Some ''sda''" "Some ''unknown''" "Some ''0:0:0:0''" "Some []" "Some ''sda''" "Some ''/block/sda''"] d
  have d': "udevdb (running sda_db []) = udevdb (running sda_db [False])" by blast
  from a b c d a' b' c' d' show ?thesis by blast
qed

text \<open>
  C6. The key that the bus and the class index build from two parts determines the
  parts whenever the first parts of the two pairs have the same length, or the
  delimiter is a single character that occurs in neither first part. Both index
  kinds build their keys with \<open>keystr2\<close>. In particular the bus keys that
  udevdb_add_device writes, whose first part is always \<^verbatim>\<open>"unknown"\<close>, and its
  class keys, whose first part is always empty, determine the bus id and the class
  device name.
\<close>

theorem keystr2_injective:
  assumes "length a = length a' \<or> (\<exists>c. UDEVDB_DEL lim = [c] \<and> c \<notin> set a \<and> c \<notin> set a')"
  shows "keystr2 lim a b = keystr2 lim a' b' \<longleftrightarrow> a = a' \<and> b = b'"
proof
  assume eq: "keystr2 lim a b = keystr2 lim a' b'"
  from assms show "a = a' \<and> b = b'"
  proof (elim disjE exE conjE)
    assume "length a = length a'"
    with eq show ?thesis by (simp add: keystr2_def)
  next
    fix c
    assume "UDEVDB_DEL lim = [c]" "c \<notin> set a" "c \<notin> set a'"
    with eq append_delim_eq[of a c b a' b'] show ?thesis
      by (simp add: keystr2_def)
  qed
next
  assume "a = a' \<and> b = b'"
  then show "keystr2 lim a b = keystr2 lim a' b'" by simp
qed

text \<open>
  The theorem for two pairs with different first parts that do not hold the
  delimiter, and for two pairs with the first part \<^verbatim>\<open>"unknown"\<close> and different
  second parts: the keys differ.
\<close>

theorem keystr2_injective_witness:
  "(\<exists>c. UDEVDB_DEL sample_limits = [c] \<and> c \<notin> set ''scsi'' \<and> c \<notin> set ''usb'')
   \<and> keystr2 sample_limits ''scsi'' ''1:0'' \<noteq> keystr2 sample_limits ''usb'' ''1:0''
   \<and> length ''unknown'' = length ''unknown''
   \<and> keystr2 sample_limits ''unknown'' ''0:0:0:0'' \<noteq> keystr2 sample_limits ''unknown'' ''0:0:0:1''"
proof -
  have h: "\<exists>c. UDEVDB_DEL sample_limits = [c] \<and> c \<notin> set ''scsi'' \<and> c \<notin> set ''usb''"
    by (simp add: sample_limits_def)
  then have "keystr2 sample_limits ''scsi'' ''1:0'' \<noteq> keystr2 sample_limits ''usb'' ''1:0''"
    using keystr2_injective[of "''scsi''" "''usb''" sample_limits "''1:0''" "''1:0''"]
    by simp
  moreover have "keystr2 sample_limits ''unknown'' ''0:0:0:0'' \<noteq>
      keystr2 sample_limits ''unknown'' ''0:0:0:1''"
    using keystr2_injective[of "''unknown''" "''unknown''" sample_limits "''0:0:0:0''" "''0:0:0:1''"]
    by simp
  ultimately show ?thesis using h by simp
qed

text \<open>
  Where the claim as stated fails: the pairs \<^verbatim>\<open>("a#", "b")\<close> and
  \<^verbatim>\<open>("a", "#b")\<close> differ, pass the length tests of busdb_fetch and classdb_fetch,
  and give the same key, so both find the one entry stored under it.
\<close>

theorem keystr2_injective_counterexample:
  "(''a#'', ''b'') \<noteq> (''a'', ''#b'')
   \<and> keystr2 sample_limits ''a#'' ''b'' = keystr2 sample_limits ''a'' ''#b''
   \<and> busdb_fetch sample_limits (running [''a##b'' \<mapsto> Index_rec ''sda''] []) (Some ''a#'') (Some ''b'') =
       Returns (Some ''sda'', running [''a##b'' \<mapsto> Index_rec ''sda''] [])
   \<and> busdb_fetch sample_limits (running [''a##b'' \<mapsto> Index_rec ''sda''] []) (Some ''a'') (Some ''#b'') =
       Returns (Some ''sda'', running [''a##b'' \<mapsto> Index_rec ''sda''] [])
   \<and> classdb_fetch sample_limits (running [''a##b'' \<mapsto> Index_rec ''sda''] []) (Some ''a#'') (Some ''b'') =
       Returns (Some ''sda'', running [''a##b'' \<mapsto> Index_rec ''sda''] [])
   \<and> classdb_fetch sample_limits (running [''a##b'' \<mapsto> Index_rec ''sda''] []) (Some ''a'') (Some ''#b'') =
       Returns (Some ''sda'', running [''a##b'' \<mapsto> Index_rec ''sda''] [])"
  by (simp add: eval_defs)


text \<open>
  C2. The scenario of the specification: the device is added and then deleted.
  udevdb_delete_udevice returns 0, and the lookups by name, by bus and by class then
  return NULL, but the lookup by path still returns the name: the function deletes
  the bus and class index entries and the record, and not the sysfs index entry that
  udevdb_add_device wrote with them.
\<close>

theorem delete_leaves_sysfs_entry:
  "udevdb_add_device sample_limits (running Map.empty []) (Some ''/block/sda'')
     (Some sda_class_dev) (Some ''sda'') CHR ''b'' 8 0 432 = Returns (0, sda_added)
   \<and> udevdb_delete_udevice sample_limits sda_added (Some ''sda'') = Returns (0, sda_deleted)
   \<and> udevdb_get_udevice sample_limits sda_deleted zero_udevice (Some ''sda'') =
       Returns (None, sda_deleted)
   \<and> udevdb_get_udevice_by_bus sample_limits sda_deleted zero_udevice
        (Some ''unknown'') (Some ''0:0:0:0'') = Returns (None, sda_deleted)
   \<and> udevdb_get_udevice_by_class sample_limits sda_deleted zero_udevice
        (Some []) (Some ''sda'') = Returns (None, sda_deleted)
   \<and> udevdb_get_udevice_by_sysfs sample_limits sda_deleted (Some ''/block/sda'') =
       Returns (Some ''sda'', sda_deleted)"
proof -
  have m: "sda_db(''unknown#0:0:0:0'' := None, ''#sda'' := None, ''sda'' := None) =
      [''/block/sda'' \<mapsto> Sysfs_rec ''sda'']"
    by (rule ext) (simp add: sda_db_def)
  have "udevdb_delete_udevice sample_limits sda_added (Some ''sda'') =
      Returns (0, running (sda_db(''unknown#0:0:0:0'' := None, ''#sda'' := None, ''sda'' := None)) [])"
    by (simp add: del_defs namedb_fetch_def fetch_rec_running build_key2_def keystr2_def
        as_name_def fits_def sample_limits_def sda_added_def sda_db_def sda_rec_def)
  then have a: "udevdb_delete_udevice sample_limits sda_added (Some ''sda'') = Returns (0, sda_deleted)"
    by (simp add: m sda_deleted_def)
  have b: "udevdb_get_udevice sample_limits sda_deleted zero_udevice (Some ''sda'') =
       Returns (None, sda_deleted)"
    by (simp add: sda_deleted_def eval_defs)
  have c: "udevdb_get_udevice_by_bus sample_limits sda_deleted zero_udevice
        (Some ''unknown'') (Some ''0:0:0:0'') = Returns (None, sda_deleted)"
    by (simp add: sda_deleted_def eval_defs)
  have d: "udevdb_get_udevice_by_class sample_limits sda_deleted zero_udevice
        (Some []) (Some ''sda'') = Returns (None, sda_deleted)"
    by (simp add: sda_deleted_def eval_defs)
  have e: "udevdb_get_udevice_by_sysfs sample_limits sda_deleted (Some ''/block/sda'') =
       Returns (Some ''sda'', sda_deleted)"
    by (simp add: sda_deleted_def eval_defs)
  from sda_add a b c d e show ?thesis by blast
qed

text \<open>
  C3. A sysfs key of exactly \<^verbatim>\<open>PATH_SIZE\<close> characters is at its maximum length,
  and udevdb_add_device accepts it: it returns 0 and writes all four entries, the
  record can be fetched by name, and the lookup by path, which tests the length,
  refuses the very key the entry was stored under. With a device name of exactly
  \<^verbatim>\<open>NAME_SIZE\<close> characters the function copies all of them with \<^verbatim>\<open>strncpy\<close>,
  which leaves the name without terminator, and then reads it as a string: no
  error is returned for either.
\<close>

theorem add_accepts_overlong:
  "length long_path = PATH_SIZE sample_limits
   \<and> udevdb_add_device sample_limits (running Map.empty []) (Some long_path)
        (Some sda_class_dev) (Some ''sda'') CHR ''b'' 8 0 432 = Returns (0, long_added)
   \<and> udevdb_get_udevice sample_limits long_added zero_udevice (Some ''sda'') =
       Returns (Some \<lparr>name = ''sda'', sysfs_dev_path = ''/devices/scsi0/0:0:0:0'',
                       class_dev_name = ''sda'', class_name = [], bus_id = ''0:0:0:0'',
                       bus_name = ''unknown'', driver = [], type = CHR ''b'', major = 8,
                       minor = 0, mode = 432\<rparr>, long_added)
   \<and> udevdb_get_udevice_by_sysfs sample_limits long_added (Some long_path) =
       Returns (None, long_added)
   \<and> length long_name = NAME_SIZE sample_limits
   \<and> udevdb_add_device sample_limits (running Map.empty []) (Some ''/block/sda'')
        (Some sda_class_dev) (Some long_name) CHR ''b'' 8 0 432 = Undefined"
proof -
  have a: "udevdb_add_device sample_limits (running Map.empty []) (Some long_path)
        (Some sda_class_dev) (Some ''sda'') CHR ''b'' 8 0 432 = Returns (0, long_added)"
    by (simp add: add_defs length_long_path long_added_def sda_rec_def)
  have b: "udevdb_get_udevice sample_limits long_added zero_udevice (Some ''sda'') =
       Returns (Some \<lparr>name = ''sda'', sysfs_dev_path = ''/devices/scsi0/0:0:0:0'',
                       class_dev_name = ''sda'', class_name = [], bus_id = ''0:0:0:0'',
                       bus_name = ''unknown'', driver = [], type = CHR ''b'', major = 8,
                       minor = 0, mode = 432\<rparr>, long_added)"
    by (simp add: long_added_def sda_rec_def eval_defs zero_udevice_def)
  have c: "udevdb_get_udevice_by_sysfs sample_limits long_added (Some long_path) =
       Returns (None, long_added)"
    by (simp add: udevdb_get_udevice_by_sysfs_def sysfsdb_fetch_def sample_limits_def
        length_long_path)
  have d: "udevdb_add_device sample_limits (running Map.empty []) (Some ''/block/sda'')
        (Some sda_class_dev) (Some long_name) CHR ''b'' 8 0 432 = Undefined"
    by (simp add: add_defs length_long_name)
  from a b c d length_long_path length_long_name show ?thesis
    by (simp add: sample_limits_def)
qed


end
